theory Spec2Isabelle
  imports Main "HOL-Library.Word" "HOL-Library.Signed_Division"
begin

section \<open>Go string primitives used by the driver\<close>

text \<open>
  Go strings are byte sequences; they are modelled as \<open>string\<close> (a list of \<open>char\<close>).
  The driver only ever searches for one-byte separators (\<open>":"\<close>, \<open>"@"\<close>, \<open>"/"\<close>), so
  \<open>strings.Index\<close> and \<open>strings.LastIndex\<close> are modelled for a single byte. Go returns
  \<open>-1\<close> when the separator is absent; the model returns \<open>None\<close>.
\<close>

fun strings_Index :: "string \<Rightarrow> char \<Rightarrow> nat option" where
  "strings_Index [] c = None"
| "strings_Index (x # xs) c =
     (if x = c then Some 0 else map_option Suc (strings_Index xs c))"

definition strings_LastIndex :: "string \<Rightarrow> char \<Rightarrow> nat option" where
  "strings_LastIndex s c =
     (case strings_Index (rev s) c of
        None \<Rightarrow> None
      | Some i \<Rightarrow> Some (length s - 1 - i))"

definition strings_HasPrefix :: "string \<Rightarrow> string \<Rightarrow> bool" where
  "strings_HasPrefix s p = (take (length p) s = p)"

definition strings_TrimPrefix :: "string \<Rightarrow> string \<Rightarrow> string" where
  "strings_TrimPrefix s p = (if strings_HasPrefix s p then drop (length p) s else s)"

definition strings_HasSuffix :: "string \<Rightarrow> string \<Rightarrow> bool" where
  "strings_HasSuffix s p = (length p \<le> length s \<and> drop (length s - length p) s = p)"

definition strings_TrimSuffix :: "string \<Rightarrow> string \<Rightarrow> string" where
  "strings_TrimSuffix s p = (if strings_HasSuffix s p then take (length s - length p) s else s)"

text \<open>\<open>strings.Contains(s, sub)\<close>: \<open>sub\<close> occurs at some offset of \<open>s\<close>.\<close>

fun strings_Contains :: "string \<Rightarrow> string \<Rightarrow> bool" where
  "strings_Contains [] sub = (sub = [])"
| "strings_Contains (x # xs) sub =
     (strings_HasPrefix (x # xs) sub \<or> strings_Contains xs sub)"

text \<open>
  \<open>strings.Split(s, sep)\<close> for a one-byte separator: the pieces between the occurrences;
  a string with \<open>n\<close> separators gives \<open>n + 1\<close> pieces.
\<close>

fun strings_Split :: "string \<Rightarrow> char \<Rightarrow> string list" where
  "strings_Split [] c = [[]]"
| "strings_Split (x # xs) c =
     (if x = c then [] # strings_Split xs c
      else (case strings_Split xs c of
              [] \<Rightarrow> [[x]]
            | p # ps \<Rightarrow> (x # p) # ps))"

section \<open>Snapshot metadata and the snapshot ID codec\<close>

text \<open>
  Modelled from the spec: the protocol constants \<open>ProtocolNFS\<close>, \<open>ProtocolNVMeOF\<close> and
  \<open>ProtocolISCSI\<close> are declared in another file of the driver package; the data model
  gives the protocol property as one of \<open>nfs\<close>, \<open>nvmeof\<close>, \<open>iscsi\<close>.
\<close>

definition ProtocolNFS :: string where "ProtocolNFS = ''nfs''"
definition ProtocolNVMeOF :: string where "ProtocolNVMeOF = ''nvmeof''"
definition ProtocolISCSI :: string where "ProtocolISCSI = ''iscsi''"

definition DetachedSnapshotPrefix :: string where
  "DetachedSnapshotPrefix = ''detached:''"

record SnapshotMetadata =
  SnapshotName :: string
  SourceVolume :: string
  DatasetName :: string
  Protocol :: string
  CreatedAt :: "64 word"
  Detached :: bool

datatype codec_error =
    ErrProtocolRequired
  | ErrSourceVolumeRequired
  | ErrSnapshotNameRequired
  | ErrInvalidSnapshotIDFormat
  | ErrInvalidProtocol

text \<open>
  The part of a ZFS snapshot name after its last \<open>@\<close> (the whole name when it has none),
  as \<open>encodeSnapshotID\<close> and \<open>executeDetachedVolumeClone\<close> compute it inline.
\<close>

definition shortSnapshotName :: "string \<Rightarrow> string" where
  "shortSnapshotName n =
     (case strings_LastIndex n (CHR ''@'') of
        None \<Rightarrow> n
      | Some idx \<Rightarrow> drop (idx + 1) n)"

definition encodeSnapshotID :: "SnapshotMetadata \<Rightarrow> codec_error + string" where
  "encodeSnapshotID meta =
     (if Protocol meta = [] then Inl ErrProtocolRequired
      else if SourceVolume meta = [] then Inl ErrSourceVolumeRequired
      else
        let snapshotName = shortSnapshotName (SnapshotName meta) in
        if snapshotName = [] then Inl ErrSnapshotNameRequired
        else
          let baseID = Protocol meta @ '':'' @ SourceVolume meta @ ''@'' @ snapshotName in
          if Detached meta then Inr (DetachedSnapshotPrefix @ baseID) else Inr baseID)"

definition decodeCompactSnapshotID :: "string \<Rightarrow> codec_error + SnapshotMetadata" where
  "decodeCompactSnapshotID snapshotID =
     (case strings_Index snapshotID (CHR '':'') of
        None \<Rightarrow> Inl ErrInvalidSnapshotIDFormat
      | Some colonIdx \<Rightarrow>
          let protocol = take colonIdx snapshotID;
              remainder = drop (colonIdx + 1) snapshotID in
          if protocol \<noteq> ProtocolNFS \<and> protocol \<noteq> ProtocolNVMeOF \<and> protocol \<noteq> ProtocolISCSI
          then Inl ErrInvalidProtocol
          else
            (case strings_LastIndex remainder (CHR ''@'') of
               None \<Rightarrow> Inl ErrInvalidSnapshotIDFormat
             | Some atIdx \<Rightarrow>
                 let volumeID = take atIdx remainder;
                     snapshotName = drop (atIdx + 1) remainder in
                 if volumeID = [] then Inl ErrInvalidSnapshotIDFormat
                 else if snapshotName = [] then Inl ErrInvalidSnapshotIDFormat
                 else Inr \<lparr>SnapshotName = snapshotName, SourceVolume = volumeID,
                           DatasetName = [], Protocol = protocol, CreatedAt = 0,
                           Detached = False\<rparr>))"

definition decodeSnapshotID :: "string \<Rightarrow> codec_error + SnapshotMetadata" where
  "decodeSnapshotID snapshotID =
     (if strings_HasPrefix snapshotID DetachedSnapshotPrefix then
        (case decodeCompactSnapshotID (strings_TrimPrefix snapshotID DetachedSnapshotPrefix) of
           Inl err \<Rightarrow> Inl err
         | Inr meta \<Rightarrow> Inr (meta\<lparr>Detached := True\<rparr>))
      else decodeCompactSnapshotID snapshotID)"

definition valid_protocol :: "string \<Rightarrow> bool" where
  "valid_protocol p = (p = ProtocolNFS \<or> p = ProtocolNVMeOF \<or> p = ProtocolISCSI)"

text \<open>The composition the round-trip law is about: encode, then decode the ID obtained.\<close>

definition decodeAfterEncode :: "SnapshotMetadata \<Rightarrow> codec_error + SnapshotMetadata" where
  "decodeAfterEncode m =
     (case encodeSnapshotID m of Inl err \<Rightarrow> Inl err | Inr sid \<Rightarrow> decodeSnapshotID sid)"

section \<open>gRPC status codes, appliance client and call trace\<close>

datatype codes = OK | InvalidArgument | NotFound | AlreadyExists | FailedPrecondition
  | DeadlineExceeded | Internal | Unavailable | Aborted | Unknown

text \<open>
  A Go \<open>error\<close> returned by the appliance client is modelled by its \<open>Error()\<close> text,
  which is all \<open>isNotFoundError\<close> looks at. An RPC result is \<open>codes + 'a\<close>: \<open>Inl c\<close> is
  \<open>status.Error(c, ...)\<close> (the message text is not modelled), \<open>Inr\<close> the response.
\<close>

type_synonym api_error = string
type_synonym query_filter = "string \<times> string \<times> string"
type_synonym props = "(string \<times> string) list"

record tnsapi_Snapshot =
  snap_ID :: string
  snap_Name :: string
  snap_Dataset :: string

record tnsapi_Dataset =
  ds_ID :: string
  ds_Name :: string

record tnsapi_DatasetWithProperties =
  dwp_Dataset :: tnsapi_Dataset
  dwp_UserProperties :: "string \<rightharpoonup> string"

text \<open>
  The types of package \<open>tnsapi\<close> are declared in another package; each is a record of the
  fields the driver reads. An NVMe-oF namespace is read only through \<open>GetDevice()\<close>, an
  iSCSI extent only through \<open>Disk\<close>. \<open>VolumeMetadata\<close> is what \<open>lookupVolumeByCSIName\<close>
  returns.
\<close>

record tnsapi_NFSShare =
  share_Path :: string

record tnsapi_NVMeOFNamespace =
  ns_Device :: string

record tnsapi_ISCSIExtent =
  extent_Disk :: string

record VolumeMetadata =
  vm_DatasetID :: string
  vm_DatasetName :: string
  vm_Protocol :: string

record volumeDiscoveryResult =
  vdr_datasetName :: string
  vdr_protocol :: string

record CreateSnapshotRequest =
  csr_Name :: string
  csr_SourceVolumeId :: string
  csr_Parameters :: "string \<rightharpoonup> string"

record csi_Snapshot =
  SnapshotId :: string
  SourceVolumeId :: string
  CreationTime :: "64 word"
  ReadyToUse :: bool
  SizeBytes :: "64 word"

record csi_Volume =
  VolumeId :: string
  VolumeContext :: "string \<rightharpoonup> string"

record CreateVolumeRequest =
  req_Name :: string
  req_Parameters :: "string \<rightharpoonup> string"

record cloneParameters =
  cp_pool :: string
  cp_parentDataset :: string
  cp_newVolumeName :: string
  cp_newDatasetName :: string

record cloneInfo =
  ci_Mode :: string
  ci_OriginSnapshot :: string
  ci_SnapshotID :: string

text \<open>
  Every call the engine makes on the appliance client is recorded, in order, as an
  \<open>event\<close>. \<open>Log_Warning\<close> records the \<open>klog\<close> warning at the places where the engine
  swallows an error and carries on; other log lines are not modelled.
\<close>

datatype event =
    Call_QuerySnapshots "query_filter list"
  | Call_CreateSnapshot string string
  | Call_SetSnapshotProperties string props
  | Call_DeleteSnapshot string
  | Call_QueryAllDatasets string
  | Call_CreateDataset string string
  | Call_SetDatasetProperties string props
  | Call_GetDatasetProperties string "string list"
  | Call_DeleteDataset string
  | Call_PromoteDataset string
  | Call_CloneSnapshot string string
  | Call_RunOnetimeReplicationAndWait string string string
  | Call_FindDatasetsByProperty string string string
  | Call_Dataset string
  | Call_lookupSnapshotByCSIName string string
  | Call_lookupVolumeByCSIName string string
  | Call_QueryAllNFSShares string
  | Call_QueryAllNVMeOFNamespaces
  | Call_QueryISCSIExtents
  | Log_Warning string

text \<open>
  The controller service as the engine sees it: the verbs of \<open>s.apiClient\<close> (fields
  \<open>api_...\<close>), answering each call from its arguments, and the helpers of the driver
  that are defined in other files of the package (\<open>lookupSnapshotByCSIName\<close>,
  \<open>lookupVolumeByCSIName\<close>, \<open>isDatasetPathVolumeID\<close>, \<open>mountpointToDatasetID\<close>,
  \<open>getZvolCapacity\<close>, \<open>tnsapi.StringToInt64\<close> and the protocol-specific
  \<open>setup...VolumeFromClone\<close>), taken as parameters. A verb that fails returns the error;
  a query that fails returns no list (Go's nil slice).
\<close>

record ControllerService =
  api_QuerySnapshots :: "query_filter list \<Rightarrow> api_error + tnsapi_Snapshot list"
  api_CreateSnapshot :: "string \<Rightarrow> string \<Rightarrow> api_error + tnsapi_Snapshot"
  api_SetSnapshotProperties :: "string \<Rightarrow> props \<Rightarrow> api_error option"
  api_DeleteSnapshot :: "string \<Rightarrow> api_error option"
  api_QueryAllDatasets :: "string \<Rightarrow> api_error + tnsapi_Dataset list"
  api_CreateDataset :: "string \<Rightarrow> string \<Rightarrow> api_error option"
  api_SetDatasetProperties :: "string \<Rightarrow> props \<Rightarrow> api_error option"
  api_GetDatasetProperties :: "string \<Rightarrow> string list \<Rightarrow> api_error + (string \<rightharpoonup> string)"
  api_DeleteDataset :: "string \<Rightarrow> api_error option"
  api_PromoteDataset :: "string \<Rightarrow> api_error option"
  api_CloneSnapshot :: "string \<Rightarrow> string \<Rightarrow> api_error + tnsapi_Dataset"
  api_RunOnetimeReplicationAndWait :: "string \<Rightarrow> string \<Rightarrow> string \<Rightarrow> api_error option"
  api_FindDatasetsByProperty ::
    "string \<Rightarrow> string \<Rightarrow> string \<Rightarrow> api_error + tnsapi_DatasetWithProperties list"
  api_Dataset :: "string \<Rightarrow> api_error + tnsapi_Dataset"
  lookupSnapshotByCSIName :: "string \<Rightarrow> string \<Rightarrow> api_error + SnapshotMetadata option"
  getZvolCapacity :: "tnsapi_Dataset \<Rightarrow> 64 word"
  StringToInt64 :: "string \<Rightarrow> 64 word"
  setupNFSVolumeFromClone ::
    "CreateVolumeRequest \<Rightarrow> tnsapi_Dataset \<Rightarrow> string \<Rightarrow> cloneInfo \<Rightarrow> codes + csi_Volume"
  setupNVMeOFVolumeFromClone ::
    "CreateVolumeRequest \<Rightarrow> tnsapi_Dataset \<Rightarrow> string \<Rightarrow> string \<Rightarrow> cloneInfo
       \<Rightarrow> codes + csi_Volume"
  setupISCSIVolumeFromClone ::
    "CreateVolumeRequest \<Rightarrow> tnsapi_Dataset \<Rightarrow> string \<Rightarrow> cloneInfo \<Rightarrow> codes + csi_Volume"
  api_QueryAllNFSShares :: "string \<Rightarrow> api_error + tnsapi_NFSShare list"
  api_QueryAllNVMeOFNamespaces :: "api_error + tnsapi_NVMeOFNamespace list"
  api_QueryISCSIExtents :: "api_error + tnsapi_ISCSIExtent list"
  lookupVolumeByCSIName :: "string \<Rightarrow> string \<Rightarrow> api_error + VolumeMetadata option"
  isDatasetPathVolumeID :: "string \<Rightarrow> bool"
  mountpointToDatasetID :: "string \<Rightarrow> string"

text \<open>
  Modelled from the spec: the property keys and values of package \<open>tnsapi\<close> and the
  \<open>VolumeContextValue...\<close> constants are declared in other packages. The data model
  names the user properties (\<open>managed_by\<close>, \<open>snapshot_id\<close>, ...); the comments of the
  driver write them with the \<open>tns-csi:\<close> namespace. The general theorems below do not
  depend on the spelling chosen here; only the concrete examples unfold it.
\<close>

definition PropertyManagedBy :: string where "PropertyManagedBy = ''tns-csi:managed_by''"
definition ManagedByValue :: string where "ManagedByValue = ''tns-csi''"
definition PropertySnapshotID :: string where "PropertySnapshotID = ''tns-csi:snapshot_id''"
definition PropertySourceVolumeID :: string where
  "PropertySourceVolumeID = ''tns-csi:source_volume_id''"
definition PropertyDetachedSnapshot :: string where
  "PropertyDetachedSnapshot = ''tns-csi:detached_snapshot''"
definition PropertySourceDataset :: string where
  "PropertySourceDataset = ''tns-csi:source_dataset''"
definition PropertyProtocol :: string where "PropertyProtocol = ''tns-csi:protocol''"
definition PropertyDeleteStrategy :: string where
  "PropertyDeleteStrategy = ''tns-csi:delete_strategy''"
definition PropertyCSIVolumeName :: string where
  "PropertyCSIVolumeName = ''tns-csi:csi_volume_name''"
definition PropertyCapacityBytes :: string where
  "PropertyCapacityBytes = ''tns-csi:capacity_bytes''"
definition VolumeContextValueTrue :: string where "VolumeContextValueTrue = ''true''"
definition VolumeContextValueFalse :: string where "VolumeContextValueFalse = ''false''"
definition CloneModeCOW :: string where "CloneModeCOW = ''cow''"
definition CloneModePromoted :: string where "CloneModePromoted = ''promoted''"
definition CloneModeDetached :: string where "CloneModeDetached = ''detached''"

definition DetachedSnapshotsParam :: string where
  "DetachedSnapshotsParam = ''detachedSnapshots''"
definition DetachedSnapshotsParentDatasetParam :: string where
  "DetachedSnapshotsParentDatasetParam = ''detachedSnapshotsParentDataset''"
definition DefaultDetachedSnapshotsFolder :: string where
  "DefaultDetachedSnapshotsFolder = ''csi-detached-snapshots''"
definition DetachedVolumesFromSnapshotsParam :: string where
  "DetachedVolumesFromSnapshotsParam = ''detachedVolumesFromSnapshots''"
definition PromotedVolumesFromSnapshotsParam :: string where
  "PromotedVolumesFromSnapshotsParam = ''promotedVolumesFromSnapshots''"

text \<open>Reading a Go \<open>map[string]string\<close>: a missing key reads as the empty string.\<close>

definition map_get :: "(string \<rightharpoonup> string) \<Rightarrow> string \<Rightarrow> string" where
  "map_get m k = (case m k of None \<Rightarrow> [] | Some v \<Rightarrow> v)"

definition warn_if :: "api_error option \<Rightarrow> string \<Rightarrow> event list" where
  "warn_if r msg = (case r of None \<Rightarrow> [] | Some err \<Rightarrow> [Log_Warning msg])"

fun strings_Join :: "string list \<Rightarrow> string \<Rightarrow> string" where
  "strings_Join [] sep = []"
| "strings_Join [x] sep = x"
| "strings_Join (x # y # ys) sep = x @ sep @ strings_Join (y # ys) sep"

section \<open>isNotFoundError\<close>

text \<open>
  \<open>containsAny\<close> scans, for each candidate, every offset \<open>i\<close> with
  \<open>0 \<le> i \<le> len(s) - len(substr)\<close>, provided \<open>len(s) \<ge> len(substr)\<close>.
\<close>

definition containsAny :: "string \<Rightarrow> string list \<Rightarrow> bool" where
  "containsAny s substrs =
     list_ex (\<lambda>substr.
        length substr \<le> length s \<and>
        list_ex (\<lambda>i. take (length substr) (drop i s) = substr)
                [0 ..< length s - length substr + 1]) substrs"

definition isNotFoundError :: "api_error \<Rightarrow> bool" where
  "isNotFoundError errStr = containsAny errStr [''not found'', ''does not exist'', ''ENOENT'']"

section \<open>CreateSnapshot: regular snapshots\<close>

definition regularSnapshotProps :: "string \<Rightarrow> string \<Rightarrow> string \<Rightarrow> props" where
  "regularSnapshotProps snapshotName sourceVolumeID protocol =
     [(PropertyManagedBy, ManagedByValue),
      (PropertySnapshotID, snapshotName),
      (PropertySourceVolumeID, sourceVolumeID),
      (PropertyDetachedSnapshot, VolumeContextValueFalse),
      (PropertyProtocol, protocol),
      (PropertyDeleteStrategy, ''delete'')]"

text \<open>
  The response both paths of \<open>createRegularSnapshot\<close> build from the ZFS snapshot ID:
  encode the metadata, \<open>Internal\<close> if that fails.
\<close>

definition regularSnapshotResponse ::
  "64 word \<Rightarrow> string \<Rightarrow> string \<Rightarrow> string \<Rightarrow> string \<Rightarrow> codes + csi_Snapshot" where
  "regularSnapshotResponse now zfsID sourceVolumeID datasetName protocol =
     (case encodeSnapshotID
             \<lparr>SnapshotName = zfsID, SourceVolume = sourceVolumeID, DatasetName = datasetName,
              Protocol = protocol, CreatedAt = now, Detached = False\<rparr> of
        Inl encodeErr \<Rightarrow> Inl Internal
      | Inr snapshotID \<Rightarrow>
          Inr \<lparr>SnapshotId = snapshotID, SourceVolumeId = sourceVolumeID,
               CreationTime = now, ReadyToUse = True, SizeBytes = 0\<rparr>)"

text \<open>
  The loop over the snapshots found by name: an ID that does not split into exactly two
  parts at \<open>@\<close> is skipped; the first other entry ends the loop (and the RPC), as the
  existing snapshot when it is on \<open>datasetName\<close>, as \<open>AlreadyExists\<close> otherwise.
  \<open>None\<close>: the loop ran to its end.
\<close>

fun probeExistingSnapshots ::
  "64 word \<Rightarrow> string \<Rightarrow> string \<Rightarrow> string \<Rightarrow> tnsapi_Snapshot list
     \<Rightarrow> (codes + csi_Snapshot) option" where
  "probeExistingSnapshots now sourceVolumeID datasetName protocol [] = None"
| "probeExistingSnapshots now sourceVolumeID datasetName protocol (snapshot # rest) =
     (let parts = strings_Split (snap_ID snapshot) (CHR ''@'') in
      if length parts \<noteq> 2
      then probeExistingSnapshots now sourceVolumeID datasetName protocol rest
      else
        let existingDataset = hd parts in
        if existingDataset = datasetName
        then Some (regularSnapshotResponse now (snap_ID snapshot) sourceVolumeID
                     datasetName protocol)
        else Some (Inl AlreadyExists))"

definition createRegularSnapshot ::
  "ControllerService \<Rightarrow> 64 word \<Rightarrow> string \<Rightarrow> string \<Rightarrow> string \<Rightarrow> string
     \<Rightarrow> (codes + csi_Snapshot) \<times> event list" where
  "createRegularSnapshot s now snapshotName sourceVolumeID datasetName protocol =
     (let nameFilter = [(''name'', ''='', snapshotName)];
          (probe, tr0) =
            (case api_QuerySnapshots s nameFilter of
               Inl err \<Rightarrow>
                 (None, [Call_QuerySnapshots nameFilter,
                         Log_Warning ''Failed to query existing snapshots''])
             | Inr existingSnapshots \<Rightarrow>
                 (probeExistingSnapshots now sourceVolumeID datasetName protocol
                    existingSnapshots,
                  [Call_QuerySnapshots nameFilter]))
      in case probe of
           Some r \<Rightarrow> (r, tr0)
         | None \<Rightarrow>
             (case api_CreateSnapshot s datasetName snapshotName of
                Inl err \<Rightarrow> (Inl Internal, tr0 @ [Call_CreateSnapshot datasetName snapshotName])
              | Inr snapshot \<Rightarrow>
                  let props = regularSnapshotProps snapshotName sourceVolumeID protocol;
                      tr = tr0 @ [Call_CreateSnapshot datasetName snapshotName,
                                  Call_SetSnapshotProperties (snap_ID snapshot) props]
                             @ warn_if (api_SetSnapshotProperties s (snap_ID snapshot) props)
                                 ''Failed to set CSI properties on snapshot''
                  in (regularSnapshotResponse now (snap_ID snapshot) sourceVolumeID
                        datasetName protocol, tr)))"

section \<open>DeleteSnapshot\<close>

datatype resolve_error = QueryFailed api_error | ErrSnapshotNotFoundTrueNAS

definition resolveZFSSnapshotName ::
  "ControllerService \<Rightarrow> SnapshotMetadata \<Rightarrow> (resolve_error + string) \<times> event list" where
  "resolveZFSSnapshotName s meta =
     (if strings_Contains (SnapshotName meta) ''@'' then (Inr (SnapshotName meta), [])
      else
        let snapshotName = SnapshotName meta;
            volumeID = SourceVolume meta in
        if strings_Contains volumeID ''/'' then (Inr (volumeID @ ''@'' @ snapshotName), [])
        else
          let nameFilter = [(''name'', ''='', snapshotName)] in
          (case api_QuerySnapshots s nameFilter of
             Inl err \<Rightarrow> (Inl (QueryFailed err), [Call_QuerySnapshots nameFilter])
           | Inr snapshots \<Rightarrow>
               (case find (\<lambda>snap.
                        strings_HasSuffix (snap_ID snap) (''@'' @ snapshotName) \<and>
                        strings_Contains
                          (strings_TrimSuffix (snap_ID snap) (''@'' @ snapshotName)) volumeID)
                      snapshots of
                  Some snap \<Rightarrow> (Inr (snap_ID snap), [Call_QuerySnapshots nameFilter])
                | None \<Rightarrow> (Inl ErrSnapshotNotFoundTrueNAS, [Call_QuerySnapshots nameFilter]))))"

definition deleteRegularSnapshot ::
  "ControllerService \<Rightarrow> SnapshotMetadata \<Rightarrow> (codes + unit) \<times> event list" where
  "deleteRegularSnapshot s snapshotMeta =
     (case resolveZFSSnapshotName s snapshotMeta of
        (Inl err, tr) \<Rightarrow> (Inr (), tr @ [Log_Warning ''Failed to resolve ZFS snapshot name''])
      | (Inr zfsSnapshotName, tr) \<Rightarrow>
          (case api_DeleteSnapshot s zfsSnapshotName of
             Some err \<Rightarrow>
               if isNotFoundError err
               then (Inr (), tr @ [Call_DeleteSnapshot zfsSnapshotName])
               else (Inl Internal, tr @ [Call_DeleteSnapshot zfsSnapshotName])
           | None \<Rightarrow> (Inr (), tr @ [Call_DeleteSnapshot zfsSnapshotName])))"

text \<open>The last step of \<open>deleteDetachedSnapshot\<close>, reached with or without verified properties.\<close>

definition deleteDetachedDataset ::
  "ControllerService \<Rightarrow> string \<Rightarrow> event list \<Rightarrow> (codes + unit) \<times> event list" where
  "deleteDetachedDataset s datasetPath tr =
     (case api_DeleteDataset s datasetPath of
        Some err \<Rightarrow>
          if isNotFoundError err
          then (Inr (), tr @ [Call_DeleteDataset datasetPath])
          else (Inl Internal, tr @ [Call_DeleteDataset datasetPath])
      | None \<Rightarrow> (Inr (), tr @ [Call_DeleteDataset datasetPath]))"

text \<open>
  The first step of \<open>deleteDetachedSnapshot\<close>: the dataset path is the metadata's
  \<open>DatasetName\<close> or, when that is empty (as after decoding an ID), what the property
  lookup by snapshot name finds; a failed lookup leaves it empty.
\<close>

definition resolveDetachedDatasetPath ::
  "ControllerService \<Rightarrow> SnapshotMetadata \<Rightarrow> string \<times> event list" where
  "resolveDetachedDatasetPath s snapshotMeta =
     (if DatasetName snapshotMeta = [] then
        (case lookupSnapshotByCSIName s [] (SnapshotName snapshotMeta) of
           Inl err \<Rightarrow>
             ([], [Call_lookupSnapshotByCSIName [] (SnapshotName snapshotMeta),
                   Log_Warning ''Failed to lookup detached snapshot via properties''])
         | Inr None \<Rightarrow>
             ([], [Call_lookupSnapshotByCSIName [] (SnapshotName snapshotMeta)])
         | Inr (Some resolvedMeta) \<Rightarrow>
             (DatasetName resolvedMeta,
              [Call_lookupSnapshotByCSIName [] (SnapshotName snapshotMeta)]))
      else (DatasetName snapshotMeta, []))"

definition detachedWantedProps :: "string list" where
  "detachedWantedProps = [PropertyDetachedSnapshot, PropertyManagedBy]"

definition deleteDetachedSnapshot ::
  "ControllerService \<Rightarrow> SnapshotMetadata \<Rightarrow> (codes + unit) \<times> event list" where
  "deleteDetachedSnapshot s snapshotMeta =
     (let (datasetPath, tr1) = resolveDetachedDatasetPath s snapshotMeta
      in if datasetPath = [] then (Inr (), tr1)
         else
           let tr2 = tr1 @ [Call_GetDatasetProperties datasetPath detachedWantedProps] in
           (case api_GetDatasetProperties s datasetPath detachedWantedProps of
              Inl err \<Rightarrow>
                if isNotFoundError err then (Inr (), tr2)
                else deleteDetachedDataset s datasetPath
                       (tr2 @ [Log_Warning ''Failed to get properties for detached snapshot dataset''])
            | Inr props \<Rightarrow>
                if map_get props PropertyManagedBy \<noteq> ManagedByValue
                then (Inl FailedPrecondition, tr2)
                else if map_get props PropertyDetachedSnapshot \<noteq> VolumeContextValueTrue
                then (Inl FailedPrecondition, tr2)
                else deleteDetachedDataset s datasetPath tr2))"

definition DeleteSnapshot :: "ControllerService \<Rightarrow> string \<Rightarrow> (codes + unit) \<times> event list" where
  "DeleteSnapshot s snapshotID =
     (if snapshotID = [] then (Inl InvalidArgument, [])
      else
        (case decodeSnapshotID snapshotID of
           Inl err \<Rightarrow> (Inr (), [Log_Warning ''Failed to decode snapshot ID''])
         | Inr snapshotMeta \<Rightarrow>
             if Detached snapshotMeta then deleteDetachedSnapshot s snapshotMeta
             else deleteRegularSnapshot s snapshotMeta))"

text \<open>
  What C3 calls a snapshot that does not exist, in terms of what the engine can observe:
  the ID does not decode; or (regular) the ZFS name cannot be resolved or the appliance
  answers the delete call with a not-found error; or (detached) no dataset path is
  resolved, the property read answers not-found, or the delete call is reached and
  answers not-found.
\<close>

definition notFoundAnswer :: "api_error option \<Rightarrow> bool" where
  "notFoundAnswer r = (case r of None \<Rightarrow> False | Some err \<Rightarrow> isNotFoundError err)"

definition snapshotReportedMissing :: "ControllerService \<Rightarrow> string \<Rightarrow> bool" where
  "snapshotReportedMissing s snapshotID =
     (case decodeSnapshotID snapshotID of
        Inl err \<Rightarrow> True
      | Inr meta \<Rightarrow>
          if Detached meta then
            (let datasetPath = fst (resolveDetachedDatasetPath s meta) in
             datasetPath = [] \<or>
             (case api_GetDatasetProperties s datasetPath detachedWantedProps of
                Inl err \<Rightarrow>
                  isNotFoundError err \<or> notFoundAnswer (api_DeleteDataset s datasetPath)
              | Inr props \<Rightarrow>
                  map_get props PropertyManagedBy = ManagedByValue \<and>
                  map_get props PropertyDetachedSnapshot = VolumeContextValueTrue \<and>
                  notFoundAnswer (api_DeleteDataset s datasetPath)))
          else
            (case fst (resolveZFSSnapshotName s meta) of
               Inl err \<Rightarrow> True
             | Inr zfsSnapshotName \<Rightarrow> notFoundAnswer (api_DeleteSnapshot s zfsSnapshotName)))"

text \<open>
  An appliance that answers every call with a transport error; concrete inputs start from
  it. The two path helpers get a plain reading: a volume ID that holds a \<open>/\<close> is a dataset
  path, and a mount point is \<open>/mnt/\<close> followed by the dataset.
\<close>

definition offlineService :: ControllerService where
  "offlineService =
     \<lparr>api_QuerySnapshots = (\<lambda>_. Inl ''connection lost''),
      api_CreateSnapshot = (\<lambda>_ _. Inl ''connection lost''),
      api_SetSnapshotProperties = (\<lambda>_ _. Some ''connection lost''),
      api_DeleteSnapshot = (\<lambda>_. Some ''connection lost''),
      api_QueryAllDatasets = (\<lambda>_. Inl ''connection lost''),
      api_CreateDataset = (\<lambda>_ _. Some ''connection lost''),
      api_SetDatasetProperties = (\<lambda>_ _. Some ''connection lost''),
      api_GetDatasetProperties = (\<lambda>_ _. Inl ''connection lost''),
      api_DeleteDataset = (\<lambda>_. Some ''connection lost''),
      api_PromoteDataset = (\<lambda>_. Some ''connection lost''),
      api_CloneSnapshot = (\<lambda>_ _. Inl ''connection lost''),
      api_RunOnetimeReplicationAndWait = (\<lambda>_ _ _. Some ''connection lost''),
      api_FindDatasetsByProperty = (\<lambda>_ _ _. Inl ''connection lost''),
      api_Dataset = (\<lambda>_. Inl ''connection lost''),
      lookupSnapshotByCSIName = (\<lambda>_ _. Inl ''connection lost''),
      getZvolCapacity = (\<lambda>_. 0),
      StringToInt64 = (\<lambda>_. 0),
      setupNFSVolumeFromClone = (\<lambda>_ _ _ _. Inl Internal),
      setupNVMeOFVolumeFromClone = (\<lambda>_ _ _ _ _. Inl Internal),
      setupISCSIVolumeFromClone = (\<lambda>_ _ _ _. Inl Internal),
      api_QueryAllNFSShares = (\<lambda>_. Inl ''connection lost''),
      api_QueryAllNVMeOFNamespaces = Inl ''connection lost'',
      api_QueryISCSIExtents = Inl ''connection lost'',
      lookupVolumeByCSIName = (\<lambda>_ _. Inl ''connection lost''),
      isDatasetPathVolumeID = (\<lambda>volumeID. CHR ''/'' \<in> set volumeID),
      mountpointToDatasetID = (\<lambda>path. strings_TrimPrefix path ''/mnt/'')\<rparr>"

text \<open>Concrete appliance answers used in the examples below.\<close>

definition snapOther :: tnsapi_Snapshot where
  "snapOther = \<lparr>snap_ID = ''tank/other@snap1'', snap_Name = ''tank/other@snap1'',
                snap_Dataset = ''tank/other''\<rparr>"

definition snapMine :: tnsapi_Snapshot where
  "snapMine = \<lparr>snap_ID = ''tank/k8s/vol1@snap1'', snap_Name = ''tank/k8s/vol1@snap1'',
               snap_Dataset = ''tank/k8s/vol1''\<rparr>"


definition foreignLookup :: ControllerService where
  "foreignLookup =
     offlineService\<lparr>lookupSnapshotByCSIName :=
         (\<lambda>_ _. Inr (Some \<lparr>SnapshotName = ''snap-dr'', SourceVolume = ''tank/k8s/vol1'',
                             DatasetName = ''tank/data/important'', Protocol = ''nfs'',
                             CreatedAt = 0, Detached = True\<rparr>)),
       api_DeleteDataset := (\<lambda>_. None)\<rparr>"

definition detachedMeta :: SnapshotMetadata where
  "detachedMeta = \<lparr>SnapshotName = ''snap-dr'', SourceVolume = ''tank/k8s/vol1'',
                   DatasetName = [], Protocol = ''nfs'', CreatedAt = 0, Detached = True\<rparr>"

section \<open>Node: device size verification and staging\<close>

datatype node_error =
    ErrDeviceSizeMismatch
  | StatusError codes
  | OtherError string

text \<open>\<open>status.Code(err)\<close>: the code of a status error, \<open>Unknown\<close> for any other error.\<close>

fun status_Code :: "node_error \<Rightarrow> codes" where
  "status_Code (StatusError c) = c"
| "status_Code e = Unknown"

text \<open>
  What the node observes of one device while staging it: the outcome of each shell-out
  and system call of \<open>stageNVMeDevice\<close> and its callees, the \<open>strconv.ParseInt\<close> of the
  standard library, and the appliance client (\<open>None\<close> when \<open>s.apiClient\<close> is nil) answering
  \<open>Dataset\<close> with the parsed \<open>volsize\<close>, if there is one.
\<close>

record DeviceProbe =
  dev_waitForDeviceInitialization :: "string option"
  dev_stageBlockDevice :: "node_error + unit"
  dev_statOK :: bool
  dev_blockSize :: "string + 64 word"
  dev_statAfterSizeError :: bool
  dev_parseInt :: "string \<Rightarrow> 64 word option"
  dev_apiDataset :: "(string \<Rightarrow> api_error + 64 word option) option"
  dev_handleDeviceFormatting :: "node_error option"
  dev_mkdirAll :: bool
  dev_isMounted :: "string + bool"
  dev_mount :: bool

definition minTolerance :: "64 word" where
  "minTolerance = 100 * 1024 * 1024"

text \<open>
  \<open>int64\<close> arithmetic: comparisons are signed, subtraction wraps, and \<open>/\<close> truncates
  towards zero (\<open>sdiv\<close> on the signed value).
\<close>

definition verifySizeMatch :: "64 word \<Rightarrow> 64 word \<Rightarrow> node_error option" where
  "verifySizeMatch actualSize expectedCapacity =
     (if expectedCapacity \<le>s actualSize then None
      else
        let sizeDiff = expectedCapacity - actualSize;
            tenth = (word_of_int (sint expectedCapacity sdiv 10) :: 64 word);
            tolerance = (if tenth <s minTolerance then minTolerance else tenth)
        in if tolerance <s sizeDiff then Some ErrDeviceSizeMismatch else None)"

definition getExpectedCapacity :: "DeviceProbe \<Rightarrow> string \<Rightarrow> (string \<rightharpoonup> string) \<Rightarrow> 64 word" where
  "getExpectedCapacity dev datasetName volumeContext =
     (let expectedCapacityStr = map_get volumeContext ''expectedCapacity'' in
      case (if expectedCapacityStr \<noteq> [] then dev_parseInt dev expectedCapacityStr else None) of
        Some capacity \<Rightarrow> capacity
      | None \<Rightarrow>
          if datasetName \<noteq> [] \<and> dev_apiDataset dev \<noteq> None then
            (case the (dev_apiDataset dev) datasetName of
               Inl err \<Rightarrow> 0
             | Inr None \<Rightarrow> 0
             | Inr (Some parsedSize) \<Rightarrow> parsedSize)
          else 0)"

definition verifyDeviceSize :: "DeviceProbe \<Rightarrow> (string \<rightharpoonup> string) \<Rightarrow> node_error option" where
  "verifyDeviceSize dev volumeContext =
     (let datasetName = map_get volumeContext ''datasetName'' in
      case dev_blockSize dev of
        Inl err \<Rightarrow>
          if \<not> dev_statAfterSizeError dev then Some (StatusError Unavailable)
          else Some (OtherError err)
      | Inr actualSize \<Rightarrow>
          let expectedCapacity = getExpectedCapacity dev datasetName volumeContext in
          if expectedCapacity = 0 then None
          else verifySizeMatch actualSize expectedCapacity)"

definition formatAndMountNVMeDevice ::
  "DeviceProbe \<Rightarrow> (string \<rightharpoonup> string) \<Rightarrow> node_error + unit" where
  "formatAndMountNVMeDevice dev volumeContext =
     (if \<not> dev_statOK dev then Inl (StatusError Unavailable)
      else
        (case verifyDeviceSize dev volumeContext of
           Some err \<Rightarrow> Inl (StatusError FailedPrecondition)
         | None \<Rightarrow>
             (case dev_handleDeviceFormatting dev of
                Some err \<Rightarrow> Inl err
              | None \<Rightarrow>
                  if \<not> dev_mkdirAll dev then Inl (StatusError Internal)
                  else
                    (case dev_isMounted dev of
                       Inl err \<Rightarrow> Inl (StatusError Internal)
                     | Inr mounted \<Rightarrow>
                         if mounted then Inr ()
                         else if dev_mount dev then Inr ()
                         else Inl (StatusError Internal)))))"

definition stageNVMeDevice ::
  "DeviceProbe \<Rightarrow> bool \<Rightarrow> (string \<rightharpoonup> string) \<Rightarrow> node_error + unit" where
  "stageNVMeDevice dev isBlockVolume volumeContext =
     (if \<not> isBlockVolume \<and> dev_waitForDeviceInitialization dev \<noteq> None
      then Inl (StatusError Internal)
      else if isBlockVolume then dev_stageBlockDevice dev
      else formatAndMountNVMeDevice dev volumeContext)"

section \<open>Node: the NVMe-oF attach loop\<close>

text \<open>
  What the node observes during \<open>connectAndStageDevice\<close>, per attempt (counted from 1):
  whether the parent context is done when the attempt starts, and the outcome of
  \<open>connectNVMeOFTarget\<close>, \<open>waitForSubsystemLive\<close> and \<open>waitForNVMeDevice\<close> in that
  attempt, and the device the attempt finds. A failing \<open>disconnectNVMeOF\<close> is only logged.
\<close>

record AttachEnv =
  ctxDone :: "nat \<Rightarrow> bool"
  connectNVMeOFTarget :: "nat \<Rightarrow> string option"
  waitForSubsystemLive :: "nat \<Rightarrow> string option"
  waitForNVMeDevice :: "nat \<Rightarrow> string + string"
  deviceAt :: "nat \<Rightarrow> DeviceProbe"

datatype attach_event =
    Ev_Connect nat
  | Ev_WaitLive nat
  | Ev_WaitDevice nat
  | Ev_Stage nat string
  | Ev_Disconnect nat
  | Ev_Sleep

definition maxConnectRetries :: nat where
  "maxConnectRetries = 10"

text \<open>\<open>time.Sleep(retryDelay)\<close> before the next attempt, except after the last one.\<close>

definition retrySleep :: "nat \<Rightarrow> attach_event list" where
  "retrySleep attempt = (if attempt < maxConnectRetries then [Ev_Sleep] else [])"

text \<open>
  One pass through the body of the loop: \<open>Inl\<close> is a \<open>return\<close> from the function,
  \<open>Inr ()\<close> is \<open>continue\<close> (or falling off the end of the body). The error kept in
  \<open>lastErr\<close> only feeds the message of the final status and is not modelled.
\<close>

definition connectAttempt ::
  "AttachEnv \<Rightarrow> bool \<Rightarrow> (string \<rightharpoonup> string) \<Rightarrow> nat
     \<Rightarrow> ((node_error + unit) + unit) \<times> attach_event list" where
  "connectAttempt env isBlockVolume volumeContext attempt =
     (case connectNVMeOFTarget env attempt of
        Some connectErr \<Rightarrow> (Inr (), [Ev_Connect attempt] @ retrySleep attempt)
      | None \<Rightarrow>
          (case waitForSubsystemLive env attempt of
             Some stateErr \<Rightarrow>
               (Inr (), [Ev_Connect attempt, Ev_WaitLive attempt, Ev_Disconnect attempt]
                        @ retrySleep attempt)
           | None \<Rightarrow>
               (case waitForNVMeDevice env attempt of
                  Inr devicePath \<Rightarrow>
                    (case stageNVMeDevice (deviceAt env attempt) isBlockVolume volumeContext of
                       Inr stageResp \<Rightarrow>
                         (Inl (Inr stageResp),
                          [Ev_Connect attempt, Ev_WaitLive attempt, Ev_WaitDevice attempt,
                           Ev_Stage attempt devicePath])
                     | Inl stageErr \<Rightarrow>
                         if status_Code stageErr = Unavailable
                         then (Inr (),
                               [Ev_Connect attempt, Ev_WaitLive attempt, Ev_WaitDevice attempt,
                                Ev_Stage attempt devicePath, Ev_Disconnect attempt]
                               @ retrySleep attempt)
                         else (Inl (Inl stageErr),
                               [Ev_Connect attempt, Ev_WaitLive attempt, Ev_WaitDevice attempt,
                                Ev_Stage attempt devicePath]))
                | Inl err \<Rightarrow>
                    (Inr (), [Ev_Connect attempt, Ev_WaitLive attempt, Ev_WaitDevice attempt,
                              Ev_Disconnect attempt] @ retrySleep attempt))))"

function connectAttempts ::
  "AttachEnv \<Rightarrow> bool \<Rightarrow> (string \<rightharpoonup> string) \<Rightarrow> nat
     \<Rightarrow> (node_error + unit) \<times> attach_event list" where
  "connectAttempts env isBlockVolume volumeContext attempt =
     (if maxConnectRetries < attempt then (Inl (StatusError Internal), [])
      else if ctxDone env attempt then (Inl (StatusError DeadlineExceeded), [])
      else
        (case connectAttempt env isBlockVolume volumeContext attempt of
           (Inl result, evs) \<Rightarrow> (result, evs)
         | (Inr continue, evs) \<Rightarrow>
             (let (result, rest) =
                    connectAttempts env isBlockVolume volumeContext (attempt + 1)
              in (result, evs @ rest))))"
  by pat_completeness auto
termination
  by (relation "measure (\<lambda>(env, b, vc, attempt). Suc maxConnectRetries - attempt)") auto

declare connectAttempts.simps [simp del]

definition connectAndStageDevice ::
  "AttachEnv \<Rightarrow> bool \<Rightarrow> (string \<rightharpoonup> string) \<Rightarrow> (node_error + unit) \<times> attach_event list" where
  "connectAndStageDevice env isBlockVolume volumeContext =
     connectAttempts env isBlockVolume volumeContext 1"

text \<open>The events of an attempt in which connect and wait-live succeed and no device is found.\<close>

definition deviceAbsentEvents :: "nat \<Rightarrow> attach_event list" where
  "deviceAbsentEvents attempt =
     [Ev_Connect attempt, Ev_WaitLive attempt, Ev_WaitDevice attempt, Ev_Disconnect attempt]
     @ retrySleep attempt"

definition healthyDevice :: DeviceProbe where
  "healthyDevice =
     \<lparr>dev_waitForDeviceInitialization = None,
      dev_stageBlockDevice = Inr (),
      dev_statOK = True,
      dev_blockSize = Inr 10737418240,
      dev_statAfterSizeError = True,
      dev_parseInt = (\<lambda>s. if s = ''10737418240'' then Some 10737418240 else None),
      dev_apiDataset = None,
      dev_handleDeviceFormatting = None,
      dev_mkdirAll = True,
      dev_isMounted = Inr False,
      dev_mount = True\<rparr>"

definition deviceNeverAppears :: AttachEnv where
  "deviceNeverAppears =
     \<lparr>ctxDone = (\<lambda>_. False),
      connectNVMeOFTarget = (\<lambda>_. None),
      waitForSubsystemLive = (\<lambda>_. None),
      waitForNVMeDevice = (\<lambda>_. Inl ''timeout waiting for NVMe device to appear''),
      deviceAt = (\<lambda>_. healthyDevice)\<rparr>"

section \<open>CreateSnapshot: detached snapshots\<close>

definition detachedSnapshotProps :: "string \<Rightarrow> string \<Rightarrow> string \<Rightarrow> string \<Rightarrow> props" where
  "detachedSnapshotProps snapshotName sourceVolumeID sourceDataset protocol =
     [(PropertyManagedBy, ManagedByValue),
      (PropertySnapshotID, snapshotName),
      (PropertySourceVolumeID, sourceVolumeID),
      (PropertyDetachedSnapshot, VolumeContextValueTrue),
      (PropertySourceDataset, sourceDataset),
      (PropertyProtocol, protocol),
      (PropertyDeleteStrategy, ''delete'')]"

text \<open>
  The parent dataset of detached snapshots: the class parameter, else
  \<open>{pool}/csi-detached-snapshots\<close> with the pool taken from the parameters or from the
  first component of the source dataset; \<open>None\<close> when no pool can be determined.
\<close>

definition resolveDetachedParent :: "string \<Rightarrow> string \<Rightarrow> string \<Rightarrow> string option" where
  "resolveDetachedParent sourceDataset pool detachedParentDataset =
     (if detachedParentDataset = [] then
        let pool' = (if pool = [] then
                       (case strings_Split sourceDataset (CHR ''/'') of
                          [] \<Rightarrow> pool
                        | p # ps \<Rightarrow> p)
                     else pool)
        in if pool' = [] then None
           else Some (pool' @ ''/'' @ DefaultDetachedSnapshotsFolder)
      else Some detachedParentDataset)"

definition ensureDetachedSnapshotsParentDataset ::
  "ControllerService \<Rightarrow> string \<Rightarrow> api_error option \<times> event list" where
  "ensureDetachedSnapshotsParentDataset s parentDataset =
     (case api_QueryAllDatasets s parentDataset of
        Inl err \<Rightarrow> (Some err, [Call_QueryAllDatasets parentDataset])
      | Inr datasets \<Rightarrow>
          if list_ex (\<lambda>ds. ds_Name ds = parentDataset \<or> ds_ID ds = parentDataset) datasets
          then (None, [Call_QueryAllDatasets parentDataset])
          else
            (case api_CreateDataset s parentDataset ''FILESYSTEM'' of
               Some err \<Rightarrow>
                 (Some err, [Call_QueryAllDatasets parentDataset,
                             Call_CreateDataset parentDataset ''FILESYSTEM''])
             | None \<Rightarrow>
                 (None,
                  [Call_QueryAllDatasets parentDataset,
                   Call_CreateDataset parentDataset ''FILESYSTEM'',
                   Call_SetDatasetProperties parentDataset [(PropertyManagedBy, ManagedByValue)]]
                  @ warn_if (api_SetDatasetProperties s parentDataset
                               [(PropertyManagedBy, ManagedByValue)])
                      ''Failed to set properties on parent dataset'')))"

definition detachedSnapshotResponse ::
  "64 word \<Rightarrow> string \<Rightarrow> string \<Rightarrow> string \<Rightarrow> string \<Rightarrow> codes + csi_Snapshot" where
  "detachedSnapshotResponse now snapshotName sourceVolumeID targetDataset protocol =
     (case encodeSnapshotID
             \<lparr>SnapshotName = snapshotName, SourceVolume = sourceVolumeID,
              DatasetName = targetDataset, Protocol = protocol, CreatedAt = now,
              Detached = True\<rparr> of
        Inl encodeErr \<Rightarrow> Inl Internal
      | Inr snapshotID \<Rightarrow>
          Inr \<lparr>SnapshotId = snapshotID, SourceVolumeId = sourceVolumeID,
               CreationTime = now, ReadyToUse = True, SizeBytes = 0\<rparr>)"

text \<open>
  Steps 2 to 5 of \<open>createDetachedSnapshot\<close>, once the temporary snapshot exists:
  replicate, promote, delete the replicated temporary snapshot, set the CSI properties.
\<close>

definition replicateDetachedSnapshot ::
  "ControllerService \<Rightarrow> 64 word \<Rightarrow> string \<Rightarrow> string \<Rightarrow> string \<Rightarrow> string \<Rightarrow> string \<Rightarrow> string
     \<Rightarrow> (codes + csi_Snapshot) \<times> event list" where
  "replicateDetachedSnapshot s now snapshotName sourceVolumeID sourceDataset protocol
       targetDataset tempSnapshotName =
     (let trR = [Call_RunOnetimeReplicationAndWait sourceDataset targetDataset tempSnapshotName]
      in case api_RunOnetimeReplicationAndWait s sourceDataset targetDataset tempSnapshotName of
           Some err \<Rightarrow>
             (Inl Internal,
              trR @ [Log_Warning ''Detached snapshot replication failed'',
                     Call_DeleteDataset targetDataset]
                  @ warn_if (api_DeleteDataset s targetDataset)
                      ''Failed to cleanup partial detached snapshot dataset'')
         | None \<Rightarrow>
             let trP = trR @ [Call_PromoteDataset targetDataset]
                           @ warn_if (api_PromoteDataset s targetDataset) ''PromoteDataset failed'';
                 targetTempSnapshot = targetDataset @ ''@'' @ tempSnapshotName;
                 trD = trP @ [Call_DeleteSnapshot targetTempSnapshot]
                           @ warn_if (api_DeleteSnapshot s targetTempSnapshot)
                               ''Failed to delete replicated temporary snapshot'';
                 props = detachedSnapshotProps snapshotName sourceVolumeID sourceDataset protocol;
                 trS = trD @ [Call_SetDatasetProperties targetDataset props]
             in (case api_SetDatasetProperties s targetDataset props of
                   Some err \<Rightarrow>
                     (Inl Internal,
                      trS @ [Call_DeleteDataset targetDataset]
                          @ warn_if (api_DeleteDataset s targetDataset)
                              ''Failed to cleanup detached snapshot dataset after property setting failure'')
                 | None \<Rightarrow>
                     (detachedSnapshotResponse now snapshotName sourceVolumeID targetDataset
                        protocol, trS)))"

text \<open>
  \<open>clock\<close> is the decimal rendering of \<open>time.Now().UnixNano()\<close> that names the temporary
  snapshot. The deferred deletion of the temporary snapshot on the source runs when the
  function returns, so its call closes the trace.
\<close>

definition createDetachedSnapshot ::
  "ControllerService \<Rightarrow> 64 word \<Rightarrow> string \<Rightarrow> string \<Rightarrow> string \<Rightarrow> string \<Rightarrow> string \<Rightarrow> string
     \<Rightarrow> string \<Rightarrow> (codes + csi_Snapshot) \<times> event list" where
  "createDetachedSnapshot s now clock snapshotName sourceVolumeID sourceDataset protocol pool
       detachedParentDataset =
     (case resolveDetachedParent sourceDataset pool detachedParentDataset of
        None \<Rightarrow> (Inl InvalidArgument, [])
      | Some parentDataset \<Rightarrow>
          (case ensureDetachedSnapshotsParentDataset s parentDataset of
             (Some err, tr0) \<Rightarrow> (Inl Internal, tr0)
           | (None, tr0) \<Rightarrow>
               let targetDataset = parentDataset @ ''/'' @ snapshotName;
                   (existingDatasets, tr1) =
                     (case api_QueryAllDatasets s targetDataset of
                        Inl err \<Rightarrow>
                          ([], tr0 @ [Call_QueryAllDatasets targetDataset,
                                      Log_Warning ''Failed to query existing datasets''])
                      | Inr datasets \<Rightarrow> (datasets, tr0 @ [Call_QueryAllDatasets targetDataset]))
               in if list_ex (\<lambda>ds. ds_Name ds = targetDataset) existingDatasets
                  then (detachedSnapshotResponse now snapshotName sourceVolumeID targetDataset
                          protocol, tr1)
                  else
                    let tempSnapshotName = ''csi-detached-temp-'' @ clock;
                        tempSnapshot = sourceDataset @ ''@'' @ tempSnapshotName
                    in (case api_CreateSnapshot s sourceDataset tempSnapshotName of
                          Inl err \<Rightarrow>
                            (Inl Internal,
                             tr1 @ [Call_CreateSnapshot sourceDataset tempSnapshotName])
                        | Inr created \<Rightarrow>
                            (case replicateDetachedSnapshot s now snapshotName sourceVolumeID
                                    sourceDataset protocol targetDataset tempSnapshotName of
                               (result, tr2) \<Rightarrow>
                                 (result,
                                  tr1 @ [Call_CreateSnapshot sourceDataset tempSnapshotName]
                                      @ tr2 @ [Call_DeleteSnapshot tempSnapshot]
                                      @ warn_if (api_DeleteSnapshot s tempSnapshot)
                                          ''Failed to delete temporary snapshot'')))))"

section \<open>CreateSnapshot\<close>

text \<open>
  \<open>discoverVolumeBySearching\<close>, the fallback when no parent dataset is given: the property
  lookup, then the NFS shares whose path ends in \<open>/volumeID\<close> (the first whose dataset
  query returns something decides), then the NVMe-oF namespaces and the iSCSI extents
  whose device holds the volume ID.
\<close>

fun searchNFSShares ::
  "ControllerService \<Rightarrow> string \<Rightarrow> tnsapi_NFSShare list
     \<Rightarrow> volumeDiscoveryResult option \<times> event list" where
  "searchNFSShares s volumeID [] = (None, [])"
| "searchNFSShares s volumeID (share # rest) =
     (if strings_HasSuffix (share_Path share) (''/'' @ volumeID) then
        let datasetID = mountpointToDatasetID s (share_Path share) in
        (case api_QueryAllDatasets s datasetID of
           Inl dsErr \<Rightarrow>
             (case searchNFSShares s volumeID rest of
                (r, tr) \<Rightarrow> (r, Call_QueryAllDatasets datasetID # tr))
         | Inr [] \<Rightarrow>
             (case searchNFSShares s volumeID rest of
                (r, tr) \<Rightarrow> (r, Call_QueryAllDatasets datasetID # tr))
         | Inr (d # ds) \<Rightarrow>
             (Some \<lparr>vdr_datasetName = ds_Name d, vdr_protocol = ProtocolNFS\<rparr>,
              [Call_QueryAllDatasets datasetID]))
      else searchNFSShares s volumeID rest)"

definition discoverVolumeBySearching ::
  "ControllerService \<Rightarrow> string \<Rightarrow> volumeDiscoveryResult option \<times> event list" where
  "discoverVolumeBySearching s volumeID =
     (let trL = [Call_lookupVolumeByCSIName [] volumeID];
          byProperty =
            (case lookupVolumeByCSIName s [] volumeID of
               Inl err \<Rightarrow> None
             | Inr None \<Rightarrow> None
             | Inr (Some meta) \<Rightarrow>
                 Some \<lparr>vdr_datasetName = vm_DatasetName meta, vdr_protocol = vm_Protocol meta\<rparr>)
      in case byProperty of
           Some r \<Rightarrow> (Some r, trL)
         | None \<Rightarrow>
             let (byShare, trS) =
                   (case api_QueryAllNFSShares s volumeID of
                      Inl err \<Rightarrow> (None, [])
                    | Inr shares \<Rightarrow> searchNFSShares s volumeID shares);
                 trN = trL @ [Call_QueryAllNFSShares volumeID] @ trS
             in (case byShare of
                   Some r \<Rightarrow> (Some r, trN)
                 | None \<Rightarrow>
                     let namespaces =
                           (case api_QueryAllNVMeOFNamespaces s of
                              Inl err \<Rightarrow> []
                            | Inr nss \<Rightarrow> nss)
                     in (case find (\<lambda>ns. strings_Contains (ns_Device ns) volumeID) namespaces of
                           Some ns \<Rightarrow>
                             (Some \<lparr>vdr_datasetName = strings_TrimPrefix (ns_Device ns) ''zvol/'',
                                    vdr_protocol = ProtocolNVMeOF\<rparr>,
                              trN @ [Call_QueryAllNVMeOFNamespaces])
                         | None \<Rightarrow>
                             let extents =
                                   (case api_QueryISCSIExtents s of
                                      Inl err \<Rightarrow> []
                                    | Inr es \<Rightarrow> es)
                             in (case find (\<lambda>extent. strings_Contains (extent_Disk extent) volumeID)
                                        extents of
                                   Some extent \<Rightarrow>
                                     (Some \<lparr>vdr_datasetName =
                                              strings_TrimPrefix (extent_Disk extent) ''zvol/'',
                                            vdr_protocol = ProtocolISCSI\<rparr>,
                                      trN @ [Call_QueryAllNVMeOFNamespaces, Call_QueryISCSIExtents])
                                 | None \<Rightarrow>
                                     (None,
                                      trN @ [Call_QueryAllNVMeOFNamespaces,
                                             Call_QueryISCSIExtents])))))"

text \<open>
  The RPC: validate the request, find the dataset and the protocol of the source volume
  (property lookup under the parent dataset with the name-based path as fallback, or the
  search above when no parent dataset is given), then route on the \<open>detachedSnapshots\<close>
  parameter.
\<close>

definition CreateSnapshot ::
  "ControllerService \<Rightarrow> 64 word \<Rightarrow> string \<Rightarrow> CreateSnapshotRequest
     \<Rightarrow> (codes + csi_Snapshot) \<times> event list" where
  "CreateSnapshot s now clock req =
     (if csr_Name req = [] then (Inl InvalidArgument, [])
      else if csr_SourceVolumeId req = [] then (Inl InvalidArgument, [])
      else
        let snapshotName = csr_Name req;
            sourceVolumeID = csr_SourceVolumeId req;
            params = csr_Parameters req;
            pool = map_get params ''pool'';
            parentDataset = (if map_get params ''parentDataset'' = [] then pool
                             else map_get params ''parentDataset'');
            protocol0 = (if map_get params ''protocol'' = [] then ProtocolNFS
                         else map_get params ''protocol'');
            detached = (map_get params DetachedSnapshotsParam = VolumeContextValueTrue);
            detachedParentDataset = map_get params DetachedSnapshotsParentDatasetParam;
            (datasetName, protocol, tr0) =
              (if parentDataset \<noteq> [] then
                 let trL = [Call_lookupVolumeByCSIName parentDataset sourceVolumeID];
                     (found, protocol1, tr) =
                       (case lookupVolumeByCSIName s parentDataset sourceVolumeID of
                          Inl err \<Rightarrow>
                            ([], protocol0, trL @ [Log_Warning ''Property-based lookup failed''])
                        | Inr None \<Rightarrow> ([], protocol0, trL)
                        | Inr (Some volumeMeta) \<Rightarrow>
                            (vm_DatasetID volumeMeta,
                             if vm_Protocol volumeMeta \<noteq> [] then vm_Protocol volumeMeta
                             else protocol0,
                             trL))
                 in if found = [] then
                      (if isDatasetPathVolumeID s sourceVolumeID then sourceVolumeID
                       else parentDataset @ ''/'' @ sourceVolumeID, protocol1, tr)
                    else (found, protocol1, tr)
               else
                 (case discoverVolumeBySearching s sourceVolumeID of
                    (None, tr) \<Rightarrow> ([], protocol0, tr)
                  | (Some result, tr) \<Rightarrow> (vdr_datasetName result, vdr_protocol result, tr)))
        in if datasetName = [] then (Inl NotFound, tr0)
           else if detached then
             (case createDetachedSnapshot s now clock snapshotName sourceVolumeID datasetName
                     protocol pool detachedParentDataset of
                (result, tr) \<Rightarrow> (result, tr0 @ tr))
           else
             (case createRegularSnapshot s now snapshotName sourceVolumeID datasetName protocol of
                (result, tr) \<Rightarrow> (result, tr0 @ tr)))"

section \<open>CreateVolume from a snapshot\<close>

datatype cloneMode =
    cloneModeDetachedSnapshotRestore
  | cloneModeDetached
  | cloneModePromoted
  | cloneModeCOW

datatype metadata_error =
    ResolveFailed resolve_error
  | LookupFailed api_error
  | ErrDetachedSnapshotNotFound

definition resolveDetachedSnapshotMetadata ::
  "ControllerService \<Rightarrow> SnapshotMetadata \<Rightarrow> (metadata_error + SnapshotMetadata) \<times> event list" where
  "resolveDetachedSnapshotMetadata s meta =
     (case lookupSnapshotByCSIName s [] (SnapshotName meta) of
        Inl err \<Rightarrow>
          (Inl (LookupFailed err), [Call_lookupSnapshotByCSIName [] (SnapshotName meta)])
      | Inr None \<Rightarrow>
          (Inl ErrDetachedSnapshotNotFound,
           [Call_lookupSnapshotByCSIName [] (SnapshotName meta)])
      | Inr (Some resolvedMeta) \<Rightarrow>
          (Inr (meta\<lparr>DatasetName := DatasetName resolvedMeta,
                     Protocol := (if Protocol resolvedMeta \<noteq> [] then Protocol resolvedMeta
                                  else Protocol meta),
                     SourceVolume := (if SourceVolume resolvedMeta \<noteq> []
                                      then SourceVolume resolvedMeta else SourceVolume meta)\<rparr>),
           [Call_lookupSnapshotByCSIName [] (SnapshotName meta)]))"

definition resolveSnapshotMetadata ::
  "ControllerService \<Rightarrow> SnapshotMetadata \<Rightarrow> (metadata_error + SnapshotMetadata) \<times> event list" where
  "resolveSnapshotMetadata s meta =
     (if strings_Contains (SnapshotName meta) ''@'' \<and> DatasetName meta \<noteq> [] then (Inr meta, [])
      else if Detached meta then resolveDetachedSnapshotMetadata s meta
      else
        (case resolveZFSSnapshotName s meta of
           (Inl err, tr) \<Rightarrow> (Inl (ResolveFailed err), tr)
         | (Inr zfsSnapshotName, tr) \<Rightarrow>
             (Inr (meta\<lparr>SnapshotName := zfsSnapshotName,
                        DatasetName :=
                          (case strings_LastIndex zfsSnapshotName (CHR ''@'') of
                             None \<Rightarrow> DatasetName meta
                           | Some idx \<Rightarrow> take idx zfsSnapshotName)\<rparr>), tr)))"

definition validateCloneParameters ::
  "CreateVolumeRequest \<Rightarrow> SnapshotMetadata \<Rightarrow> codes + cloneParameters" where
  "validateCloneParameters req snapshotMeta =
     (let params = req_Parameters req;
          pool0 = map_get params ''pool'';
          parentDataset0 = map_get params ''parentDataset''
      in if DatasetName snapshotMeta = [] then Inl Internal
         else
           (case (if pool0 = [] then
                    (case strings_Split (DatasetName snapshotMeta) (CHR ''/'') of
                       [] \<Rightarrow> None
                     | p # ps \<Rightarrow> if p \<noteq> [] then Some p else None)
                  else Some pool0) of
              None \<Rightarrow> Inl Internal
            | Some pool \<Rightarrow>
                let parentDataset =
                      (if parentDataset0 = [] then
                         (if Detached snapshotMeta then pool
                          else
                            let parts = strings_Split (DatasetName snapshotMeta) (CHR ''/'')
                            in if 1 < length parts then strings_Join (butlast parts) ''/''
                               else pool)
                       else parentDataset0);
                    newVolumeName = req_Name req
                in Inr \<lparr>cp_pool = pool, cp_parentDataset = parentDataset,
                        cp_newVolumeName = newVolumeName,
                        cp_newDatasetName = parentDataset @ ''/'' @ newVolumeName\<rparr>))"

definition executeSnapshotClone ::
  "ControllerService \<Rightarrow> SnapshotMetadata \<Rightarrow> cloneParameters
     \<Rightarrow> (codes + tnsapi_Dataset) \<times> event list" where
  "executeSnapshotClone s snapshotMeta params =
     (case api_CloneSnapshot s (SnapshotName snapshotMeta) (cp_newDatasetName params) of
        Inl err \<Rightarrow>
          (Inl Internal,
           [Call_CloneSnapshot (SnapshotName snapshotMeta) (cp_newDatasetName params),
            Call_DeleteDataset (cp_newDatasetName params)])
      | Inr clonedDataset \<Rightarrow>
          (Inr clonedDataset,
           [Call_CloneSnapshot (SnapshotName snapshotMeta) (cp_newDatasetName params)]))"

definition executePromotedSnapshotClone ::
  "ControllerService \<Rightarrow> SnapshotMetadata \<Rightarrow> cloneParameters
     \<Rightarrow> (codes + tnsapi_Dataset) \<times> event list" where
  "executePromotedSnapshotClone s snapshotMeta params =
     (case api_CloneSnapshot s (SnapshotName snapshotMeta) (cp_newDatasetName params) of
        Inl err \<Rightarrow>
          (Inl Internal,
           [Call_CloneSnapshot (SnapshotName snapshotMeta) (cp_newDatasetName params),
            Call_DeleteDataset (cp_newDatasetName params)])
      | Inr clonedDataset \<Rightarrow>
          (case api_PromoteDataset s (cp_newDatasetName params) of
             Some err \<Rightarrow>
               (Inl Internal,
                [Call_CloneSnapshot (SnapshotName snapshotMeta) (cp_newDatasetName params),
                 Call_PromoteDataset (cp_newDatasetName params),
                 Call_DeleteDataset (cp_newDatasetName params)])
           | None \<Rightarrow>
               (Inr clonedDataset,
                [Call_CloneSnapshot (SnapshotName snapshotMeta) (cp_newDatasetName params),
                 Call_PromoteDataset (cp_newDatasetName params)])))"

definition executeDetachedVolumeClone ::
  "ControllerService \<Rightarrow> SnapshotMetadata \<Rightarrow> cloneParameters
     \<Rightarrow> (codes + tnsapi_Dataset) \<times> event list" where
  "executeDetachedVolumeClone s snapshotMeta params =
     (let sourceDataset = DatasetName snapshotMeta;
          snapshotNameOnly = shortSnapshotName (SnapshotName snapshotMeta);
          target = cp_newDatasetName params;
          trR = [Call_RunOnetimeReplicationAndWait sourceDataset target snapshotNameOnly]
      in case api_RunOnetimeReplicationAndWait s sourceDataset target snapshotNameOnly of
           Some err \<Rightarrow> (Inl Internal, trR @ [Call_DeleteDataset target])
         | None \<Rightarrow>
             let targetSnapshot = target @ ''@'' @ snapshotNameOnly;
                 tr = trR @ [Call_PromoteDataset target]
                          @ warn_if (api_PromoteDataset s target) ''PromoteDataset failed''
                          @ [Call_DeleteSnapshot targetSnapshot]
                          @ warn_if (api_DeleteSnapshot s targetSnapshot)
                              ''Failed to delete replicated snapshot''
                          @ [Call_Dataset target]
             in (case api_Dataset s target of
                   Inl err \<Rightarrow> (Inl Internal, tr)
                 | Inr clonedDataset \<Rightarrow> (Inr clonedDataset, tr)))"

definition executeDetachedSnapshotRestore ::
  "ControllerService \<Rightarrow> SnapshotMetadata \<Rightarrow> cloneParameters
     \<Rightarrow> (codes + tnsapi_Dataset) \<times> event list" where
  "executeDetachedSnapshotRestore s snapshotMeta params =
     (let tempSnapshotName = ''csi-restore-for-'' @ cp_newVolumeName params;
          tempSnapshotFullName = DatasetName snapshotMeta @ ''@'' @ tempSnapshotName;
          datasetFilter = [(''dataset'', ''='', DatasetName snapshotMeta)];
          existingSnapshots =
            (case api_QuerySnapshots s datasetFilter of
               Inl queryErr \<Rightarrow> []
             | Inr snaps \<Rightarrow> snaps);
          snapshotExists = list_ex (\<lambda>snap. snap_Name snap = tempSnapshotFullName) existingSnapshots;
          trQ = [Call_QuerySnapshots datasetFilter];
          (createErr, trC) =
            (if \<not> snapshotExists then
               (case api_CreateSnapshot s (DatasetName snapshotMeta) tempSnapshotName of
                  Inl err \<Rightarrow>
                    (True, trQ @ [Call_CreateSnapshot (DatasetName snapshotMeta) tempSnapshotName])
                | Inr created \<Rightarrow>
                    (False, trQ @ [Call_CreateSnapshot (DatasetName snapshotMeta) tempSnapshotName]))
             else (False, trQ))
      in if createErr then (Inl Internal, trC)
         else
           (case api_CloneSnapshot s tempSnapshotFullName (cp_newDatasetName params) of
              Inl err \<Rightarrow>
                (Inl Internal,
                 trC @ [Call_CloneSnapshot tempSnapshotFullName (cp_newDatasetName params)])
            | Inr clonedDataset \<Rightarrow>
                (Inr clonedDataset,
                 trC @ [Call_CloneSnapshot tempSnapshotFullName (cp_newDatasetName params)])))"

definition validateServerParameter ::
  "ControllerService \<Rightarrow> string \<Rightarrow> tnsapi_Dataset \<Rightarrow> codes option \<times> event list" where
  "validateServerParameter s server clonedDataset =
     (if server = [] then (Some InvalidArgument, [Call_DeleteDataset (ds_ID clonedDataset)])
      else (None, []))"

definition getVolumeParametersForSnapshot ::
  "ControllerService \<Rightarrow> (string \<rightharpoonup> string) \<Rightarrow> SnapshotMetadata \<Rightarrow> tnsapi_Dataset
     \<Rightarrow> (codes + string \<times> string) \<times> event list" where
  "getVolumeParametersForSnapshot s params snapshotMeta clonedDataset =
     (let server = map_get params ''server'';
          subsystemNQN = map_get params ''subsystemNQN'';
          needsSourceExtraction =
            (server = [] \<or> (Protocol snapshotMeta = ProtocolNVMeOF \<and> subsystemNQN = []))
      in if \<not> needsSourceExtraction then
           (case validateServerParameter s server clonedDataset of
              (Some c, tr) \<Rightarrow> (Inl c, tr)
            | (None, tr) \<Rightarrow> (Inr (server, subsystemNQN), tr))
         else if server = [] then
           (Inl InvalidArgument, [Call_DeleteDataset (ds_ID clonedDataset)])
         else
           let subsystemNQN' =
                 (if subsystemNQN = [] \<and> Protocol snapshotMeta = ProtocolNVMeOF
                  then ''clone-will-generate-new-nqn'' else subsystemNQN)
           in (case validateServerParameter s server clonedDataset of
                 (Some c, tr) \<Rightarrow> (Inl c, tr)
               | (None, tr) \<Rightarrow> (Inr (server, subsystemNQN'), tr)))"

text \<open>
  The protocol-specific setup functions are defined in other files of the package: they
  are called through the service record, and the calls they make on the appliance are not
  part of the trace.
\<close>

definition setupVolumeFromClone ::
  "ControllerService \<Rightarrow> CreateVolumeRequest \<Rightarrow> tnsapi_Dataset \<Rightarrow> string \<Rightarrow> string \<Rightarrow> string
     \<Rightarrow> cloneInfo \<Rightarrow> (codes + csi_Volume) \<times> event list" where
  "setupVolumeFromClone s req clonedDataset protocol server subsystemNQN info =
     (if protocol = ProtocolNFS then
        (setupNFSVolumeFromClone s req clonedDataset server info, [])
      else if protocol = ProtocolNVMeOF then
        (if subsystemNQN = [] then
           (Inl InvalidArgument, [Call_DeleteDataset (ds_ID clonedDataset)])
         else (setupNVMeOFVolumeFromClone s req clonedDataset server subsystemNQN info, []))
      else if protocol = ProtocolISCSI then
        (setupISCSIVolumeFromClone s req clonedDataset server info, [])
      else (Inl InvalidArgument, [Call_DeleteDataset (ds_ID clonedDataset)]))"

definition selectCloneMode :: "SnapshotMetadata \<Rightarrow> (string \<rightharpoonup> string) \<Rightarrow> cloneMode" where
  "selectCloneMode snapshotMeta params =
     (let detachedMode = (map_get params DetachedVolumesFromSnapshotsParam = VolumeContextValueTrue);
          promotedMode0 = (map_get params PromotedVolumesFromSnapshotsParam = VolumeContextValueTrue);
          promotedMode = (if detachedMode \<and> promotedMode0 then False else promotedMode0)
      in if Detached snapshotMeta then cloneModeDetachedSnapshotRestore
         else if detachedMode then cloneModeDetached
         else if promotedMode then cloneModePromoted
         else cloneModeCOW)"

definition createVolumeFromSnapshot ::
  "ControllerService \<Rightarrow> CreateVolumeRequest \<Rightarrow> string \<Rightarrow> (codes + csi_Volume) \<times> event list" where
  "createVolumeFromSnapshot s req snapshotID =
     (case decodeSnapshotID snapshotID of
        Inl decodeErr \<Rightarrow> (Inl NotFound, [])
      | Inr decoded \<Rightarrow>
          (case resolveSnapshotMetadata s decoded of
             (Inl resolveErr, tr0) \<Rightarrow> (Inl NotFound, tr0)
           | (Inr snapshotMeta, tr0) \<Rightarrow>
               (case validateCloneParameters req snapshotMeta of
                  Inl validateErr \<Rightarrow> (Inl validateErr, tr0)
                | Inr cloneParams \<Rightarrow>
                    let params = req_Parameters req;
                        mode = selectCloneMode snapshotMeta params;
                        (cloned, tr1) =
                          (case mode of
                             cloneModeDetachedSnapshotRestore \<Rightarrow>
                               executeDetachedSnapshotRestore s snapshotMeta cloneParams
                           | cloneModeDetached \<Rightarrow>
                               executeDetachedVolumeClone s snapshotMeta cloneParams
                           | cloneModePromoted \<Rightarrow>
                               executePromotedSnapshotClone s snapshotMeta cloneParams
                           | cloneModeCOW \<Rightarrow>
                               executeSnapshotClone s snapshotMeta cloneParams)
                    in (case cloned of
                          Inl cloneErr \<Rightarrow> (Inl cloneErr, tr0 @ tr1)
                        | Inr clonedDataset \<Rightarrow>
                            let cloneInfoData =
                                  (case mode of
                                     cloneModeDetachedSnapshotRestore \<Rightarrow>
                                       \<lparr>ci_Mode = CloneModeCOW,
                                        ci_OriginSnapshot =
                                          DatasetName snapshotMeta @ ''@csi-restore-for-''
                                            @ req_Name req,
                                        ci_SnapshotID = snapshotID\<rparr>
                                   | cloneModeDetached \<Rightarrow>
                                       \<lparr>ci_Mode = CloneModeDetached, ci_OriginSnapshot = [],
                                        ci_SnapshotID = snapshotID\<rparr>
                                   | cloneModePromoted \<Rightarrow>
                                       \<lparr>ci_Mode = CloneModePromoted, ci_OriginSnapshot = [],
                                        ci_SnapshotID = snapshotID\<rparr>
                                   | cloneModeCOW \<Rightarrow>
                                       \<lparr>ci_Mode = CloneModeCOW,
                                        ci_OriginSnapshot = SnapshotName snapshotMeta,
                                        ci_SnapshotID = snapshotID\<rparr>)
                            in (case getVolumeParametersForSnapshot s params snapshotMeta
                                       clonedDataset of
                                  (Inl err, tr2) \<Rightarrow> (Inl err, tr0 @ tr1 @ tr2)
                                | (Inr (server, subsystemNQN), tr2) \<Rightarrow>
                                    (case setupVolumeFromClone s req clonedDataset
                                            (Protocol snapshotMeta) server subsystemNQN
                                            cloneInfoData of
                                       (result, tr3) \<Rightarrow> (result, tr0 @ tr1 @ tr2 @ tr3)))))))"


text \<open>
  A healthy appliance holding the detached snapshot \<open>snap-dr\<close>, and a restore request
  that sets both clone-mode flags.
\<close>

definition restoreService :: ControllerService where
  "restoreService =
     offlineService
       \<lparr>api_QuerySnapshots := (\<lambda>_. Inr []),
        api_CreateSnapshot :=
          (\<lambda>d n. Inr \<lparr>snap_ID = d @ ''@'' @ n, snap_Name = d @ ''@'' @ n, snap_Dataset = d\<rparr>),
        api_CloneSnapshot := (\<lambda>snap d. Inr \<lparr>ds_ID = d, ds_Name = d\<rparr>),
        lookupSnapshotByCSIName :=
          (\<lambda>_ _. Inr (Some \<lparr>SnapshotName = ''snap-dr'', SourceVolume = ''tank/k8s/vol1'',
                             DatasetName = ''tank/csi-detached-snapshots/snap-dr'',
                             Protocol = ''nfs'', CreatedAt = 0, Detached = True\<rparr>)),
        setupNFSVolumeFromClone :=
          (\<lambda>req d server info. Inr \<lparr>VolumeId = ds_ID d, VolumeContext = Map.empty\<rparr>)\<rparr>"

definition restoreRequest :: CreateVolumeRequest where
  "restoreRequest =
     \<lparr>req_Name = ''pvc-restore'',
      req_Parameters = [''server'' \<mapsto> ''10.0.0.1'',
                        ''promotedVolumesFromSnapshots'' \<mapsto> ''true'',
                        ''detachedVolumesFromSnapshots'' \<mapsto> ''true'']\<rparr>"

text \<open>
  An appliance on which everything works except setting dataset properties; the parent
  dataset of detached snapshots exists.
\<close>

definition propertyFailureService :: ControllerService where
  "propertyFailureService =
     offlineService
       \<lparr>api_CreateSnapshot :=
          (\<lambda>d n. Inr \<lparr>snap_ID = d @ ''@'' @ n, snap_Name = d @ ''@'' @ n, snap_Dataset = d\<rparr>),
        api_DeleteSnapshot := (\<lambda>_. None),
        api_QueryAllDatasets :=
          (\<lambda>n. Inr (if n = ''tank/csi-detached-snapshots''
                      then [\<lparr>ds_ID = ''tank/csi-detached-snapshots'',
                             ds_Name = ''tank/csi-detached-snapshots''\<rparr>]
                      else [])),
        api_DeleteDataset := (\<lambda>_. None),
        api_PromoteDataset := (\<lambda>_. None),
        api_RunOnetimeReplicationAndWait := (\<lambda>_ _ _. None)\<rparr>"



text \<open>
  A healthy appliance that knows every volume by its dataset path, before and after the
  detached snapshot \<open>snap-dr\<close> of \<open>tank/k8s/vol1\<close> was taken, and the two requests for that
  snapshot name: the first for \<open>tank/k8s/vol1\<close>, the second for \<open>tank/k8s/vol2\<close>.
\<close>

definition snapshotAppliance :: ControllerService where
  "snapshotAppliance =
     propertyFailureService
       \<lparr>api_SetDatasetProperties := (\<lambda>_ _. None),
        lookupVolumeByCSIName :=
          (\<lambda>parentDataset volumeID.
             Inr (Some \<lparr>vm_DatasetID = volumeID, vm_DatasetName = volumeID,
                        vm_Protocol = ''nfs''\<rparr>))\<rparr>"

definition applianceHoldingSnapDr :: ControllerService where
  "applianceHoldingSnapDr =
     snapshotAppliance
       \<lparr>api_QueryAllDatasets :=
          (\<lambda>n. Inr (if n = ''tank/csi-detached-snapshots''
                      then [\<lparr>ds_ID = ''tank/csi-detached-snapshots'',
                             ds_Name = ''tank/csi-detached-snapshots''\<rparr>]
                      else if n = ''tank/csi-detached-snapshots/snap-dr''
                      then [\<lparr>ds_ID = ''tank/csi-detached-snapshots/snap-dr'',
                             ds_Name = ''tank/csi-detached-snapshots/snap-dr''\<rparr>]
                      else [])),
        api_GetDatasetProperties :=
          (\<lambda>_ _. Inr [PropertyManagedBy \<mapsto> ManagedByValue,
                        PropertySnapshotID \<mapsto> ''snap-dr'',
                        PropertySourceVolumeID \<mapsto> ''tank/k8s/vol1'',
                        PropertyDetachedSnapshot \<mapsto> VolumeContextValueTrue])\<rparr>"

definition snapDrOfVol1 :: CreateSnapshotRequest where
  "snapDrOfVol1 =
     \<lparr>csr_Name = ''snap-dr'', csr_SourceVolumeId = ''tank/k8s/vol1'',
      csr_Parameters = [''pool'' \<mapsto> ''tank'', ''detachedSnapshots'' \<mapsto> ''true'']\<rparr>"

definition snapDrOfVol2 :: CreateSnapshotRequest where
  "snapDrOfVol2 =
     \<lparr>csr_Name = ''snap-dr'', csr_SourceVolumeId = ''tank/k8s/vol2'',
      csr_Parameters = [''pool'' \<mapsto> ''tank'', ''detachedSnapshots'' \<mapsto> ''true'']\<rparr>"

text \<open>
  The regular counterpart: the appliance holds the ZFS snapshot \<open>tank/k8s/vol1@snap-dr\<close>
  and the request for \<open>tank/k8s/vol2\<close> does not ask for a detached snapshot.
\<close>

definition applianceHoldingRegularSnapDr :: ControllerService where
  "applianceHoldingRegularSnapDr =
     snapshotAppliance
       \<lparr>api_QuerySnapshots :=
          (\<lambda>_. Inr [\<lparr>snap_ID = ''tank/k8s/vol1@snap-dr'', snap_Name = ''tank/k8s/vol1@snap-dr'',
                       snap_Dataset = ''tank/k8s/vol1''\<rparr>])\<rparr>"

definition regularSnapDrOfVol2 :: CreateSnapshotRequest where
  "regularSnapDrOfVol2 =
     \<lparr>csr_Name = ''snap-dr'', csr_SourceVolumeId = ''tank/k8s/vol2'',
      csr_Parameters = [''pool'' \<mapsto> ''tank'']\<rparr>"

section \<open>ListSnapshots without a filter\<close>

record ListSnapshotsRequest =
  lreq_MaxEntries :: int
  lreq_StartingToken :: string

record ListSnapshotsResponse =
  Entries :: "csi_Snapshot list"
  NextToken :: string

record datasetMeta =
  dm_volumeID :: string
  dm_protocol :: string
  dm_capacityBytes :: "64 word"

text \<open>
  \<open>managedMeta[ds.ID] = ...\<close> on a Go map, kept as an association list: a key that is
  already there keeps its place and takes the new value.
\<close>

fun map_put :: "string \<Rightarrow> 'v \<Rightarrow> (string \<times> 'v) list \<Rightarrow> (string \<times> 'v) list" where
  "map_put k v [] = [(k, v)]"
| "map_put k v ((k', v') # rest) =
     (if k' = k then (k, v) # rest else (k', v') # map_put k v rest)"

text \<open>
  The first loop of \<open>listAllSnapshots\<close>: datasets marked \<open>detached_snapshot = true\<close> are
  skipped, the others are entered under their ID with volume ID, protocol and capacity.
\<close>

fun collectManagedMeta ::
  "ControllerService \<Rightarrow> tnsapi_DatasetWithProperties list \<Rightarrow> (string \<times> datasetMeta) list
     \<Rightarrow> (string \<times> datasetMeta) list" where
  "collectManagedMeta s [] managedMeta = managedMeta"
| "collectManagedMeta s (ds # rest) managedMeta =
     (if dwp_UserProperties ds PropertyDetachedSnapshot = Some VolumeContextValueTrue
      then collectManagedMeta s rest managedMeta
      else
        let volumeID =
              (case dwp_UserProperties ds PropertyCSIVolumeName of
                 Some v \<Rightarrow> if v \<noteq> [] then v else ds_ID (dwp_Dataset ds)
               | None \<Rightarrow> ds_ID (dwp_Dataset ds));
            protocol =
              (case dwp_UserProperties ds PropertyProtocol of
                 Some v \<Rightarrow> if v \<noteq> [] then v else ProtocolNFS
               | None \<Rightarrow> ProtocolNFS);
            capacity0 =
              (case dwp_UserProperties ds PropertyCapacityBytes of
                 Some v \<Rightarrow> StringToInt64 s v
               | None \<Rightarrow> 0);
            capacityBytes =
              (if capacity0 = 0 then getZvolCapacity s (dwp_Dataset ds) else capacity0)
        in collectManagedMeta s rest
             (map_put (ds_ID (dwp_Dataset ds))
                \<lparr>dm_volumeID = volumeID, dm_protocol = protocol,
                 dm_capacityBytes = capacityBytes\<rparr> managedMeta))"

text \<open>
  The second loop: one snapshot query per managed dataset, filtered to that dataset; a
  failed query is logged and skipped.
\<close>

fun querySnapshotsPerDataset ::
  "ControllerService \<Rightarrow> string list \<Rightarrow> tnsapi_Snapshot list \<times> event list" where
  "querySnapshotsPerDataset s [] = ([], [])"
| "querySnapshotsPerDataset s (datasetID # rest) =
     (let datasetFilter = [(''dataset'', ''='', datasetID)];
          (snaps, tr) = querySnapshotsPerDataset s rest
      in case api_QuerySnapshots s datasetFilter of
           Inl queryErr \<Rightarrow>
             (snaps, [Call_QuerySnapshots datasetFilter,
                      Log_Warning ''Failed to query snapshots for dataset''] @ tr)
         | Inr found \<Rightarrow> (found @ snaps, [Call_QuerySnapshots datasetFilter] @ tr))"

text \<open>The last loop: the entries of one page; a snapshot that cannot be encoded is skipped.\<close>

fun snapshotEntries ::
  "64 word \<Rightarrow> (string \<times> datasetMeta) list \<Rightarrow> tnsapi_Snapshot list \<Rightarrow> csi_Snapshot list" where
  "snapshotEntries now managedMeta [] = []"
| "snapshotEntries now managedMeta (snapshot # rest) =
     (case map_of managedMeta (snap_Dataset snapshot) of
        None \<Rightarrow> snapshotEntries now managedMeta rest
      | Some meta \<Rightarrow>
          (case encodeSnapshotID
                  \<lparr>SnapshotName = snap_Name snapshot, SourceVolume = dm_volumeID meta,
                   DatasetName = snap_Dataset snapshot, Protocol = dm_protocol meta,
                   CreatedAt = now, Detached = False\<rparr> of
             Inl encodeErr \<Rightarrow> snapshotEntries now managedMeta rest
           | Inr snapshotID \<Rightarrow>
               \<lparr>SnapshotId = snapshotID, SourceVolumeId = dm_volumeID meta,
                CreationTime = now, ReadyToUse = True,
                SizeBytes = dm_capacityBytes meta\<rparr>
               # snapshotEntries now managedMeta rest))"

text \<open>
  \<open>rangeOrder\<close> is the order in which Go's \<open>range\<close> visits the keys of \<open>managedMeta\<close>,
  which the language leaves open. \<open>parseSnapshotToken\<close> and \<open>encodeSnapshotToken\<close> wrap
  \<open>fmt.Sscanf\<close> and \<open>strconv.Itoa\<close> of the standard library and are taken as parameters.
  Indices are Go \<open>int\<close>s, far from overflow here, and modelled as \<open>int\<close>.
\<close>

definition listAllSnapshots ::
  "ControllerService \<Rightarrow> (string list \<Rightarrow> string list) \<Rightarrow> (string \<Rightarrow> int option)
     \<Rightarrow> (int \<Rightarrow> string) \<Rightarrow> 64 word \<Rightarrow> ListSnapshotsRequest
     \<Rightarrow> (codes + ListSnapshotsResponse) \<times> event list" where
  "listAllSnapshots s rangeOrder parseSnapshotToken encodeSnapshotToken now req =
     (case api_FindDatasetsByProperty s [] PropertyManagedBy ManagedByValue of
        Inl err \<Rightarrow>
          (Inl Internal, [Call_FindDatasetsByProperty [] PropertyManagedBy ManagedByValue])
      | Inr datasets \<Rightarrow>
          let managedMeta = collectManagedMeta s datasets [];
              (allSnapshots, trQ) =
                querySnapshotsPerDataset s (rangeOrder (map fst managedMeta));
              tr = [Call_FindDatasetsByProperty [] PropertyManagedBy ManagedByValue] @ trQ;
              total = int (length allSnapshots);
              maxEntries = (if lreq_MaxEntries req \<le> 0 then total else lreq_MaxEntries req)
          in
            (case (if lreq_StartingToken req \<noteq> []
                   then map_option Some (parseSnapshotToken (lreq_StartingToken req))
                   else Some None) of
               None \<Rightarrow> (Inl Aborted, tr)
             | Some token \<Rightarrow>
                 let startIndex = (case token of None \<Rightarrow> 0 | Some i \<Rightarrow> i) in
                 if token \<noteq> None \<and> (startIndex < 0 \<or> total \<le> startIndex)
                 then (Inr \<lparr>Entries = [], NextToken = []\<rparr>, tr)
                 else
                   let endIndex = (if total < startIndex + maxEntries then total
                                   else startIndex + maxEntries);
                       page = take (nat (endIndex - startIndex)) (drop (nat startIndex) allSnapshots);
                       entries = snapshotEntries now managedMeta page;
                       nextToken = (if endIndex < total then encodeSnapshotToken endIndex else [])
                   in (Inr \<lparr>Entries = entries, NextToken = nextToken\<rparr>, tr)))"

text \<open>The datasets an unfiltered listing may query: managed and not marked as detached snapshot.\<close>

definition managedVolumeIDs :: "tnsapi_DatasetWithProperties list \<Rightarrow> string set" where
  "managedVolumeIDs datasets =
     {ds_ID (dwp_Dataset ds) | ds.
        ds \<in> set datasets \<and>
        dwp_UserProperties ds PropertyDetachedSnapshot \<noteq> Some VolumeContextValueTrue}"

definition listingService :: ControllerService where
  "listingService =
     offlineService
       \<lparr>api_FindDatasetsByProperty :=
          (\<lambda>_ _ _. Inr
             [\<lparr>dwp_Dataset = \<lparr>ds_ID = ''tank/csi/pvc-222'', ds_Name = ''tank/csi/pvc-222''\<rparr>,
               dwp_UserProperties = [PropertyManagedBy \<mapsto> ManagedByValue,
                                     PropertyDetachedSnapshot \<mapsto> ''true'']\<rparr>,
              \<lparr>dwp_Dataset = \<lparr>ds_ID = ''tank/csi/pvc-333'', ds_Name = ''tank/csi/pvc-333''\<rparr>,
               dwp_UserProperties = [PropertyManagedBy \<mapsto> ManagedByValue,
                                     PropertyCSIVolumeName \<mapsto> ''pvc-333'',
                                     PropertyProtocol \<mapsto> ''nfs'']\<rparr>]),
        api_QuerySnapshots :=
          (\<lambda>f. if f = [(''dataset'', ''='', ''tank/csi/pvc-333'')]
                then Inr [\<lparr>snap_ID = ''tank/csi/pvc-333@snap1'',
                          snap_Name = ''tank/csi/pvc-333@snap1'',
                          snap_Dataset = ''tank/csi/pvc-333''\<rparr>]
                else Inl ''reply too large'')\<rparr>"

section \<open>Facts about the string primitives\<close>

lemma strings_Index_None: "strings_Index s c = None \<longleftrightarrow> c \<notin> set s"
  by (induction s) auto

lemma strings_Index_append:
  "c \<notin> set p \<Longrightarrow> strings_Index (p @ c # r) c = Some (length p)"
  by (induction p) auto

lemma strings_LastIndex_None: "strings_LastIndex s c = None \<longleftrightarrow> c \<notin> set s"
  using strings_Index_None [of "rev s" c]
  by (auto simp: strings_LastIndex_def split: option.splits)

lemma strings_LastIndex_append:
  assumes "c \<notin> set r"
  shows "strings_LastIndex (p @ c # r) c = Some (length p)"
proof -
  have "rev (p @ c # r) = rev r @ c # rev p" by simp
  moreover have "c \<notin> set (rev r)" using assms by simp
  ultimately have "strings_Index (rev (p @ c # r)) c = Some (length (rev r))"
    using strings_Index_append by metis
  then show ?thesis by (simp add: strings_LastIndex_def)
qed

lemma strings_Index_split:
  "strings_Index s c = Some i \<Longrightarrow> s = take i s @ c # drop (i + 1) s \<and> c \<notin> set (take i s)"
proof (induction s arbitrary: i)
  case Nil
  then show ?case by simp
next
  case (Cons x xs)
  show ?case
  proof (cases "x = c")
    case True
    with Cons.prems show ?thesis by simp
  next
    case False
    with Cons.prems obtain j where j: "strings_Index xs c = Some j" "i = Suc j"
      by auto
    with Cons.IH [OF j(1)] False show ?thesis by simp
  qed
qed

lemma strings_LastIndex_split:
  assumes "strings_LastIndex s c = Some i"
  shows "s = take i s @ c # drop (i + 1) s \<and> c \<notin> set (drop (i + 1) s)"
proof -
  from assms obtain j where j: "strings_Index (rev s) c = Some j" "i = length s - 1 - j"
    by (auto simp: strings_LastIndex_def split: option.splits)
  from strings_Index_split [OF j(1)]
  have dec: "rev s = take j (rev s) @ c # drop (j + 1) (rev s)"
    and notin: "c \<notin> set (take j (rev s))" by simp_all
  from dec have jlt: "j < length s"
    by (metis length_rev not_less take_all list.distinct(1) self_append_conv)
  have "s = rev (rev s)" by simp
  also have "\<dots> = rev (drop (j + 1) (rev s)) @ c # rev (take j (rev s))"
    using dec by (metis rev.simps(2) rev_append append.assoc append_Cons append_Nil)
  finally have s: "s = rev (drop (j + 1) (rev s)) @ c # rev (take j (rev s))" .
  have l: "length (rev (drop (j + 1) (rev s))) = i" using j(2) jlt by simp
  have t: "take i s = rev (drop (j + 1) (rev s))"
    using s l by (metis append_eq_conv_conj)
  have d: "drop (i + 1) s = rev (take j (rev s))"
    using s l by (metis append_eq_conv_conj drop_Suc_Cons drop_drop add.commute
        Suc_eq_plus1 drop0)
  show ?thesis using s t d notin by simp
qed

lemma shortSnapshotName_no_at: "CHR ''@'' \<notin> set (shortSnapshotName n)"
  using strings_LastIndex_split [of n "CHR ''@''"]
  by (auto simp: shortSnapshotName_def strings_LastIndex_None split: option.splits)

section \<open>The snapshot ID codec\<close>

lemma valid_protocol_no_colon: "valid_protocol p \<Longrightarrow> CHR '':'' \<notin> set p \<and> p \<noteq> []"
  by (auto simp: valid_protocol_def ProtocolNFS_def ProtocolNVMeOF_def ProtocolISCSI_def)

lemma decodeCompactSnapshotID_compose:
  assumes vp: "valid_protocol p" and v: "v \<noteq> []" and n: "n \<noteq> []"
    and noat: "CHR ''@'' \<notin> set n"
  shows "decodeCompactSnapshotID (p @ '':'' @ v @ ''@'' @ n) =
         Inr \<lparr>SnapshotName = n, SourceVolume = v, DatasetName = [], Protocol = p,
              CreatedAt = 0, Detached = False\<rparr>"
proof -
  have i: "strings_Index (p @ CHR '':'' # (v @ ''@'' @ n)) (CHR '':'') = Some (length p)"
    using valid_protocol_no_colon [OF vp] by (simp add: strings_Index_append)
  have l: "strings_LastIndex (v @ CHR ''@'' # n) (CHR ''@'') = Some (length v)"
    using noat by (rule strings_LastIndex_append)
  show ?thesis
    using i l vp v n
    by (simp add: decodeCompactSnapshotID_def Let_def valid_protocol_def)
qed

lemma valid_protocol_not_detached_prefix:
  "valid_protocol p \<Longrightarrow> \<not> strings_HasPrefix (p @ '':'' @ r) DetachedSnapshotPrefix"
  by (auto simp: valid_protocol_def ProtocolNFS_def ProtocolNVMeOF_def ProtocolISCSI_def
      strings_HasPrefix_def DetachedSnapshotPrefix_def)

lemma decodeSnapshotID_compose:
  assumes vp: "valid_protocol p" and v: "v \<noteq> []" and n: "n \<noteq> []"
    and noat: "CHR ''@'' \<notin> set n"
  shows "decodeSnapshotID
           ((if d then DetachedSnapshotPrefix else []) @ p @ '':'' @ v @ ''@'' @ n) =
         Inr \<lparr>SnapshotName = n, SourceVolume = v, DatasetName = [], Protocol = p,
              CreatedAt = 0, Detached = d\<rparr>"
proof (cases d)
  case True
  let ?base = "p @ '':'' @ v @ ''@'' @ n"
  have hp: "strings_HasPrefix (DetachedSnapshotPrefix @ ?base) DetachedSnapshotPrefix"
    by (simp add: strings_HasPrefix_def)
  have tp: "strings_TrimPrefix (DetachedSnapshotPrefix @ ?base) DetachedSnapshotPrefix = ?base"
    by (simp add: strings_TrimPrefix_def strings_HasPrefix_def)
  show ?thesis
    using True hp tp decodeCompactSnapshotID_compose [OF vp v n noat]
    by (simp add: decodeSnapshotID_def)
next
  case False
  then show ?thesis
    using valid_protocol_not_detached_prefix [OF vp]
      decodeCompactSnapshotID_compose [OF vp v n noat]
    by (simp add: decodeSnapshotID_def)
qed

lemma encodeSnapshotID_Inr:
  assumes "Protocol m \<noteq> []" "SourceVolume m \<noteq> []" "shortSnapshotName (SnapshotName m) \<noteq> []"
  shows "encodeSnapshotID m =
         Inr ((if Detached m then DetachedSnapshotPrefix else []) @ Protocol m @ '':'' @
              SourceVolume m @ ''@'' @ shortSnapshotName (SnapshotName m))"
  using assms by (simp add: encodeSnapshotID_def Let_def)

text \<open>
  C1 (as the code has it). \<open>encodeSnapshotID\<close> fails exactly when the protocol or the
  source volume is empty, or the part of the snapshot name after its last \<open>@\<close> is
  empty. For metadata whose protocol is \<open>nfs\<close>, \<open>nvmeof\<close> or \<open>iscsi\<close> and that encodes,
  decoding the ID gives the metadata back with \<open>SnapshotName\<close> reduced to that short
  name, \<open>DatasetName\<close> cleared and \<open>CreatedAt\<close> zero: the dataset path and the creation
  time are not part of the ID.
\<close>

theorem snapshot_id_roundtrip_normalised:
  "(isl (encodeSnapshotID m) \<longleftrightarrow>
      Protocol m = [] \<or> SourceVolume m = [] \<or> shortSnapshotName (SnapshotName m) = []) \<and>
   (valid_protocol (Protocol m) \<and> SourceVolume m \<noteq> [] \<and>
    shortSnapshotName (SnapshotName m) \<noteq> [] \<longrightarrow>
      decodeAfterEncode m =
        Inr (m\<lparr>SnapshotName := shortSnapshotName (SnapshotName m),
                DatasetName := [], CreatedAt := 0\<rparr>))"
proof (intro conjI impI)
  show "isl (encodeSnapshotID m) \<longleftrightarrow>
      Protocol m = [] \<or> SourceVolume m = [] \<or> shortSnapshotName (SnapshotName m) = []"
    by (simp add: encodeSnapshotID_def Let_def)
next
  assume a: "valid_protocol (Protocol m) \<and> SourceVolume m \<noteq> [] \<and>
             shortSnapshotName (SnapshotName m) \<noteq> []"
  then have enc: "encodeSnapshotID m =
      Inr ((if Detached m then DetachedSnapshotPrefix else []) @ Protocol m @ '':'' @
           SourceVolume m @ ''@'' @ shortSnapshotName (SnapshotName m))"
    using valid_protocol_no_colon [of "Protocol m"] by (simp add: encodeSnapshotID_Inr)
  show "decodeAfterEncode m =
        Inr (m\<lparr>SnapshotName := shortSnapshotName (SnapshotName m),
                DatasetName := [], CreatedAt := 0\<rparr>)"
    using a enc shortSnapshotName_no_at [of "SnapshotName m"]
      decodeSnapshotID_compose [of "Protocol m" "SourceVolume m"
        "shortSnapshotName (SnapshotName m)" "Detached m"]
    by (simp add: decodeAfterEncode_def)
qed

theorem snapshot_id_roundtrip_normalised_witness:
  "valid_protocol ''nvmeof'' \<and>
   decodeAfterEncode
     \<lparr>SnapshotName = ''tank/k8s/vol1@snap1'', SourceVolume = ''tank/k8s/vol1'',
      DatasetName = ''tank/k8s/vol1'', Protocol = ''nvmeof'', CreatedAt = 1700000000,
      Detached = True\<rparr> =
   Inr \<lparr>SnapshotName = ''snap1'', SourceVolume = ''tank/k8s/vol1'',
        DatasetName = [], Protocol = ''nvmeof'', CreatedAt = 0, Detached = True\<rparr>"
  using snapshot_id_roundtrip_normalised
    [of "\<lparr>SnapshotName = ''tank/k8s/vol1@snap1'', SourceVolume = ''tank/k8s/vol1'',
         DatasetName = ''tank/k8s/vol1'', Protocol = ''nvmeof'', CreatedAt = 1700000000,
         Detached = True\<rparr>"]
  by (simp add: valid_protocol_def ProtocolNVMeOF_def shortSnapshotName_def
      strings_LastIndex_def)

text \<open>
  C1 (as stated) fails on metadata the driver itself encodes: \<open>createRegularSnapshot\<close>
  passes the full ZFS name and the dataset, which do not come back; and a snapshot name
  that is not empty but ends in \<open>@\<close> is rejected by \<open>encodeSnapshotID\<close>.
\<close>

theorem snapshot_id_roundtrip_counterexample:
  "decodeAfterEncode
     \<lparr>SnapshotName = ''tank/k8s/vol1@snap1'', SourceVolume = ''tank/k8s/vol1'',
      DatasetName = ''tank/k8s/vol1'', Protocol = ''nfs'', CreatedAt = 1700000000,
      Detached = False\<rparr> \<noteq>
   Inr \<lparr>SnapshotName = ''tank/k8s/vol1@snap1'', SourceVolume = ''tank/k8s/vol1'',
        DatasetName = ''tank/k8s/vol1'', Protocol = ''nfs'', CreatedAt = 1700000000,
        Detached = False\<rparr> \<and>
   encodeSnapshotID
     \<lparr>SnapshotName = ''tank/k8s/vol1@'', SourceVolume = ''tank/k8s/vol1'',
      DatasetName = [], Protocol = ''nfs'', CreatedAt = 0, Detached = False\<rparr> =
   Inl ErrSnapshotNameRequired"
  by (simp add: decodeAfterEncode_def encodeSnapshotID_def shortSnapshotName_def
      strings_LastIndex_def decodeSnapshotID_def decodeCompactSnapshotID_def
      strings_HasPrefix_def DetachedSnapshotPrefix_def ProtocolNFS_def)

section \<open>CreateSnapshot: snapshot names and the regular path\<close>

lemma probeExistingSnapshots_skip:
  "\<forall>x \<in> set skipped. length (strings_Split (snap_ID x) (CHR ''@'')) \<noteq> 2 \<Longrightarrow>
   probeExistingSnapshots now src ds proto (skipped @ rest) =
   probeExistingSnapshots now src ds proto rest"
  by (induction skipped) (auto simp: Let_def)

lemma regularSnapshotResponse_ok:
  assumes "protocol \<noteq> []" "sourceVolumeID \<noteq> []" "shortSnapshotName zfsID \<noteq> []"
  shows "regularSnapshotResponse now zfsID sourceVolumeID datasetName protocol =
         Inr \<lparr>SnapshotId = protocol @ '':'' @ sourceVolumeID @ ''@'' @ shortSnapshotName zfsID,
              SourceVolumeId = sourceVolumeID, CreationTime = now, ReadyToUse = True,
              SizeBytes = 0\<rparr>"
  using assms by (simp add: regularSnapshotResponse_def encodeSnapshotID_def Let_def)

lemma probeExistingSnapshots_first:
  assumes sk: "\<forall>x \<in> set skipped. length (strings_Split (snap_ID x) (CHR ''@'')) \<noteq> 2"
    and wf: "length (strings_Split (snap_ID snapshot) (CHR ''@'')) = 2"
  shows "probeExistingSnapshots now sourceVolumeID datasetName protocol
           (skipped @ snapshot # rest) =
         (if hd (strings_Split (snap_ID snapshot) (CHR ''@'')) = datasetName
          then Some (regularSnapshotResponse now (snap_ID snapshot) sourceVolumeID
                       datasetName protocol)
          else Some (Inl AlreadyExists))"
  using sk wf by (simp add: probeExistingSnapshots_skip Let_def)

text \<open>
  The probe of the regular path. When the name query of \<open>createRegularSnapshot\<close> returns
  snapshots (with an ID of the form \<open>dataset@name\<close>) that are all on the requested
  dataset, one of them is returned as the existing snapshot, provided its ID encodes; when
  they are all on other datasets, the RPC fails with \<open>AlreadyExists\<close>. In both cases the
  query is the only call made.
\<close>

lemma createRegularSnapshot_probe_unmixed:
  assumes q: "api_QuerySnapshots s [(''name'', ''='', snapshotName)] = Inr existing"
    and some: "\<exists>x \<in> set existing. length (strings_Split (snap_ID x) (CHR ''@'')) = 2"
  shows "((\<forall>x \<in> set existing. length (strings_Split (snap_ID x) (CHR ''@'')) = 2 \<longrightarrow>
              hd (strings_Split (snap_ID x) (CHR ''@'')) = datasetName \<and>
              shortSnapshotName (snap_ID x) \<noteq> []) \<and>
           protocol \<noteq> [] \<and> sourceVolumeID \<noteq> [] \<longrightarrow>
           (\<exists>x \<in> set existing.
              createRegularSnapshot s now snapshotName sourceVolumeID datasetName protocol =
                (Inr \<lparr>SnapshotId = protocol @ '':'' @ sourceVolumeID @ ''@'' @
                                    shortSnapshotName (snap_ID x),
                      SourceVolumeId = sourceVolumeID, CreationTime = now, ReadyToUse = True,
                      SizeBytes = 0\<rparr>,
                 [Call_QuerySnapshots [(''name'', ''='', snapshotName)]]))) \<and>
         ((\<forall>x \<in> set existing. length (strings_Split (snap_ID x) (CHR ''@'')) = 2 \<longrightarrow>
              hd (strings_Split (snap_ID x) (CHR ''@'')) \<noteq> datasetName) \<longrightarrow>
           createRegularSnapshot s now snapshotName sourceVolumeID datasetName protocol =
             (Inl AlreadyExists, [Call_QuerySnapshots [(''name'', ''='', snapshotName)]]))"
proof -
  from some obtain skipped snapshot rest where
    dec: "existing = skipped @ snapshot # rest"
    and wf: "length (strings_Split (snap_ID snapshot) (CHR ''@'')) = 2"
    and sk: "\<forall>x \<in> set skipped. length (strings_Split (snap_ID x) (CHR ''@'')) \<noteq> 2"
    using split_list_first_prop [of existing
            "\<lambda>x. length (strings_Split (snap_ID x) (CHR ''@'')) = 2"]
    by blast
  have mem: "snapshot \<in> set existing" using dec by simp
  note first = probeExistingSnapshots_first
    [OF sk wf, of now sourceVolumeID datasetName protocol rest]
  have run: "createRegularSnapshot s now snapshotName sourceVolumeID datasetName protocol =
     (if hd (strings_Split (snap_ID snapshot) (CHR ''@'')) = datasetName
      then regularSnapshotResponse now (snap_ID snapshot) sourceVolumeID datasetName protocol
      else Inl AlreadyExists,
      [Call_QuerySnapshots [(''name'', ''='', snapshotName)]])"
    using q first dec by (simp add: createRegularSnapshot_def Let_def)
  show ?thesis
  proof (intro conjI impI)
    assume a: "(\<forall>x \<in> set existing. length (strings_Split (snap_ID x) (CHR ''@'')) = 2 \<longrightarrow>
              hd (strings_Split (snap_ID x) (CHR ''@'')) = datasetName \<and>
              shortSnapshotName (snap_ID x) \<noteq> []) \<and>
           protocol \<noteq> [] \<and> sourceVolumeID \<noteq> []"
    then have h: "hd (strings_Split (snap_ID snapshot) (CHR ''@'')) = datasetName"
      and n: "shortSnapshotName (snap_ID snapshot) \<noteq> []"
      using mem wf by auto
    have "createRegularSnapshot s now snapshotName sourceVolumeID datasetName protocol =
                (Inr \<lparr>SnapshotId = protocol @ '':'' @ sourceVolumeID @ ''@'' @
                                    shortSnapshotName (snap_ID snapshot),
                      SourceVolumeId = sourceVolumeID, CreationTime = now, ReadyToUse = True,
                      SizeBytes = 0\<rparr>,
                 [Call_QuerySnapshots [(''name'', ''='', snapshotName)]])"
      using run h n a regularSnapshotResponse_ok [of protocol sourceVolumeID "snap_ID snapshot"]
      by simp
    then show "\<exists>x \<in> set existing.
              createRegularSnapshot s now snapshotName sourceVolumeID datasetName protocol =
                (Inr \<lparr>SnapshotId = protocol @ '':'' @ sourceVolumeID @ ''@'' @
                                    shortSnapshotName (snap_ID x),
                      SourceVolumeId = sourceVolumeID, CreationTime = now, ReadyToUse = True,
                      SizeBytes = 0\<rparr>,
                 [Call_QuerySnapshots [(''name'', ''='', snapshotName)]])"
      using mem by blast
  next
    assume "\<forall>x \<in> set existing. length (strings_Split (snap_ID x) (CHR ''@'')) = 2 \<longrightarrow>
              hd (strings_Split (snap_ID x) (CHR ''@'')) \<noteq> datasetName"
    then have "hd (strings_Split (snap_ID snapshot) (CHR ''@'')) \<noteq> datasetName"
      using mem wf by auto
    then show "createRegularSnapshot s now snapshotName sourceVolumeID datasetName protocol =
             (Inl AlreadyExists, [Call_QuerySnapshots [(''name'', ''='', snapshotName)]])"
      using run by simp
  qed
qed

lemma createRegularSnapshot_probe_unmixed_example:
  "createRegularSnapshot
     (offlineService\<lparr>api_QuerySnapshots := (\<lambda>_. Inr [snapMine])\<rparr>)
     0 ''snap1'' ''tank/k8s/vol1'' ''tank/k8s/vol1'' ''nfs'' =
     (Inr \<lparr>SnapshotId = ''nfs:tank/k8s/vol1@snap1'', SourceVolumeId = ''tank/k8s/vol1'',
           CreationTime = 0, ReadyToUse = True, SizeBytes = 0\<rparr>,
      [Call_QuerySnapshots [(''name'', ''='', ''snap1'')]]) \<and>
   createRegularSnapshot
     (offlineService\<lparr>api_QuerySnapshots := (\<lambda>_. Inr [snapMine])\<rparr>)
     0 ''snap1'' ''tank/k8s/vol9'' ''tank/k8s/vol9'' ''nfs'' =
     (Inl AlreadyExists, [Call_QuerySnapshots [(''name'', ''='', ''snap1'')]])"
proof -
  let ?s = "offlineService\<lparr>api_QuerySnapshots := (\<lambda>_. Inr [snapMine])\<rparr>"
  have q: "api_QuerySnapshots ?s [(''name'', ''='', ''snap1'')] = Inr [snapMine]" by simp
  have sp: "strings_Split (snap_ID snapMine) (CHR ''@'') = [''tank/k8s/vol1'', ''snap1'']"
    by (simp add: snapMine_def)
  have some: "\<exists>x \<in> set [snapMine]. length (strings_Split (snap_ID x) (CHR ''@'')) = 2"
    using sp by simp
  have sh: "shortSnapshotName (snap_ID snapMine) = ''snap1''"
    by (simp add: snapMine_def shortSnapshotName_def strings_LastIndex_def)
  show ?thesis
    using createRegularSnapshot_probe_unmixed
        [OF q some, of "''tank/k8s/vol1''" "''nfs''" "''tank/k8s/vol1''" 0]
      createRegularSnapshot_probe_unmixed
        [OF q some, of "''tank/k8s/vol9''" "''nfs''" "''tank/k8s/vol9''" 0]
      sp sh
    by simp
qed

text \<open>
  The loop of the probe ends at the first entry of the form \<open>dataset@name\<close>. When the name
  query returns the name on both a foreign dataset and the requested one, the entry listed
  first decides: listed after the foreign one, the snapshot that exists on the requested
  dataset is not returned; listed before it, the foreign one is not reported.
\<close>

lemma createRegularSnapshot_probe_list_order:
  "fst (createRegularSnapshot
          (offlineService\<lparr>api_QuerySnapshots := (\<lambda>_. Inr [snapOther, snapMine])\<rparr>)
          0 ''snap1'' ''tank/k8s/vol1'' ''tank/k8s/vol1'' ''nfs'') = Inl AlreadyExists \<and>
   fst (createRegularSnapshot
          (offlineService\<lparr>api_QuerySnapshots := (\<lambda>_. Inr [snapMine, snapOther])\<rparr>)
          0 ''snap1'' ''tank/k8s/vol1'' ''tank/k8s/vol1'' ''nfs'') =
     Inr \<lparr>SnapshotId = ''nfs:tank/k8s/vol1@snap1'', SourceVolumeId = ''tank/k8s/vol1'',
          CreationTime = 0, ReadyToUse = True, SizeBytes = 0\<rparr>"
  by (simp add: createRegularSnapshot_def offlineService_def snapOther_def snapMine_def
      regularSnapshotResponse_def encodeSnapshotID_def shortSnapshotName_def
      strings_LastIndex_def Let_def)

text \<open>
  The detached path has no such probe: \<open>createDetachedSnapshot\<close> never queries snapshots,
  and once the parent dataset is there and the target dataset \<open>parent/name\<close> is listed it
  answers with the response built from the arguments of the request, whatever source
  volume the request names.
\<close>

lemma createDetachedSnapshot_never_probes:
  "Call_QuerySnapshots f \<notin> set (snd (createDetachedSnapshot s now clock snapshotName
       sourceVolumeID sourceDataset protocol pool detachedParentDataset))"
  by (auto simp: createDetachedSnapshot_def ensureDetachedSnapshotsParentDataset_def
       replicateDetachedSnapshot_def warn_if_def Let_def
       split: option.splits sum.splits prod.splits if_splits)

lemma createDetachedSnapshot_existing_target:
  assumes "resolveDetachedParent sourceDataset pool detachedParentDataset = Some parentDataset"
    and "ensureDetachedSnapshotsParentDataset s parentDataset = (None, tr0)"
    and "api_QueryAllDatasets s (parentDataset @ ''/'' @ snapshotName) = Inr datasets"
    and "list_ex (\<lambda>ds. ds_Name ds = parentDataset @ ''/'' @ snapshotName) datasets"
  shows "createDetachedSnapshot s now clock snapshotName sourceVolumeID sourceDataset protocol
           pool detachedParentDataset =
         (detachedSnapshotResponse now snapshotName sourceVolumeID
            (parentDataset @ ''/'' @ snapshotName) protocol,
          tr0 @ [Call_QueryAllDatasets (parentDataset @ ''/'' @ snapshotName)])"
  using assms by (simp add: createDetachedSnapshot_def Let_def)

text \<open>
  The regular path at the RPC: the appliance holds the snapshot \<open>snap-dr\<close> of
  \<open>tank/k8s/vol1\<close>, and the request for the same name on \<open>tank/k8s/vol2\<close> is refused.
\<close>

lemma CreateSnapshot_regular_name_reuse:
  "CreateSnapshot applianceHoldingRegularSnapDr 0 ''1700000000000000001'' regularSnapDrOfVol2 =
     (Inl AlreadyExists,
      [Call_lookupVolumeByCSIName ''tank'' ''tank/k8s/vol2'',
       Call_QuerySnapshots [(''name'', ''='', ''snap-dr'')]])"
  by (simp add: CreateSnapshot_def applianceHoldingRegularSnapDr_def snapshotAppliance_def
      propertyFailureService_def offlineService_def regularSnapDrOfVol2_def map_get_def
      DetachedSnapshotsParam_def DetachedSnapshotsParentDatasetParam_def
      VolumeContextValueTrue_def ProtocolNFS_def createRegularSnapshot_def Let_def)

text \<open>
  C2. Snapshot names are not kept unique on the detached path of \<open>CreateSnapshot\<close>. The
  request for the detached snapshot \<open>snap-dr\<close> of \<open>tank/k8s/vol1\<close> succeeds and leaves the
  dataset \<open>tank/csi-detached-snapshots/snap-dr\<close>. The same name then requested for
  \<open>tank/k8s/vol2\<close> succeeds as well, after the volume lookup and two dataset queries: no
  snapshot is looked up by name, the source volume of the existing dataset is not read,
  and the ID returned names \<open>tank/k8s/vol2\<close> for what is a copy of \<open>tank/k8s/vol1\<close>, where
  global uniqueness asks for \<open>AlreadyExists\<close>, the answer of the regular path.
\<close>

theorem CreateSnapshot_detached_name_reuse:
  "fst (CreateSnapshot snapshotAppliance 0 ''1700000000000000000'' snapDrOfVol1) =
     Inr \<lparr>SnapshotId = ''detached:nfs:tank/k8s/vol1@snap-dr'', SourceVolumeId = ''tank/k8s/vol1'',
          CreationTime = 0, ReadyToUse = True, SizeBytes = 0\<rparr> \<and>
   CreateSnapshot applianceHoldingSnapDr 0 ''1700000000000000001'' snapDrOfVol2 =
     (Inr \<lparr>SnapshotId = ''detached:nfs:tank/k8s/vol2@snap-dr'', SourceVolumeId = ''tank/k8s/vol2'',
          CreationTime = 0, ReadyToUse = True, SizeBytes = 0\<rparr>,
      [Call_lookupVolumeByCSIName ''tank'' ''tank/k8s/vol2'',
       Call_QueryAllDatasets ''tank/csi-detached-snapshots'',
       Call_QueryAllDatasets ''tank/csi-detached-snapshots/snap-dr''])"
  by (simp add: CreateSnapshot_def applianceHoldingSnapDr_def snapshotAppliance_def
      propertyFailureService_def offlineService_def snapDrOfVol1_def snapDrOfVol2_def
      map_get_def DetachedSnapshotsParam_def DetachedSnapshotsParentDatasetParam_def
      VolumeContextValueTrue_def ProtocolNFS_def createDetachedSnapshot_def
      resolveDetachedParent_def DefaultDetachedSnapshotsFolder_def
      ensureDetachedSnapshotsParentDataset_def replicateDetachedSnapshot_def
      detachedSnapshotResponse_def encodeSnapshotID_def shortSnapshotName_def
      strings_LastIndex_def DetachedSnapshotPrefix_def warn_if_def Let_def)




section \<open>DeleteSnapshot\<close>

lemma deleteDetachedDataset_fst:
  "fst (deleteDetachedDataset s p tr) =
     (case api_DeleteDataset s p of
        None \<Rightarrow> Inr ()
      | Some err \<Rightarrow> if isNotFoundError err then Inr () else Inl Internal)"
  by (simp add: deleteDetachedDataset_def split: option.splits)

lemma deleteDetachedDataset_snd:
  "snd (deleteDetachedDataset s p tr) = tr @ [Call_DeleteDataset p]"
  by (simp add: deleteDetachedDataset_def split: option.splits)

lemma deleteRegularSnapshot_missing:
  assumes "case fst (resolveZFSSnapshotName s meta) of
             Inl err \<Rightarrow> True
           | Inr zfsSnapshotName \<Rightarrow> notFoundAnswer (api_DeleteSnapshot s zfsSnapshotName)"
  shows "fst (deleteRegularSnapshot s meta) = Inr ()"
  using assms
  by (cases "resolveZFSSnapshotName s meta")
     (auto simp: deleteRegularSnapshot_def notFoundAnswer_def split: sum.splits option.splits)

lemma deleteDetachedSnapshot_missing:
  assumes "let datasetPath = fst (resolveDetachedDatasetPath s meta) in
             datasetPath = [] \<or>
             (case api_GetDatasetProperties s datasetPath detachedWantedProps of
                Inl err \<Rightarrow>
                  isNotFoundError err \<or> notFoundAnswer (api_DeleteDataset s datasetPath)
              | Inr props \<Rightarrow>
                  map_get props PropertyManagedBy = ManagedByValue \<and>
                  map_get props PropertyDetachedSnapshot = VolumeContextValueTrue \<and>
                  notFoundAnswer (api_DeleteDataset s datasetPath))"
  shows "fst (deleteDetachedSnapshot s meta) = Inr ()"
  using assms
  by (cases "resolveDetachedDatasetPath s meta")
     (auto simp: deleteDetachedSnapshot_def Let_def notFoundAnswer_def
        deleteDetachedDataset_fst split: sum.splits option.splits)

text \<open>
  C3 (as the code has it). For a non-empty snapshot ID whose snapshot is missing (the ID
  does not decode, the name cannot be resolved, or the appliance answers not-found, on the
  regular and the detached path), \<open>DeleteSnapshot\<close> returns success.
\<close>

theorem DeleteSnapshot_missing_is_success:
  assumes "snapshotID \<noteq> []" and "snapshotReportedMissing s snapshotID"
  shows "fst (DeleteSnapshot s snapshotID) = Inr ()"
proof (cases "decodeSnapshotID snapshotID")
  case (Inl err)
  with assms(1) show ?thesis by (simp add: DeleteSnapshot_def)
next
  case (Inr meta)
  show ?thesis
  proof (cases "Detached meta")
    case True
    with assms Inr show ?thesis
      using deleteDetachedSnapshot_missing [of s meta]
      by (simp add: DeleteSnapshot_def snapshotReportedMissing_def)
  next
    case False
    with assms Inr show ?thesis
      using deleteRegularSnapshot_missing [of s meta]
      by (simp add: DeleteSnapshot_def snapshotReportedMissing_def)
  qed
qed

theorem DeleteSnapshot_missing_is_success_witness:
  "snapshotReportedMissing
     (offlineService\<lparr>api_DeleteSnapshot := (\<lambda>_. Some ''snapshot does not exist'')\<rparr>)
     ''nfs:tank/k8s/vol1@snap1'' \<and>
   fst (DeleteSnapshot
     (offlineService\<lparr>api_DeleteSnapshot := (\<lambda>_. Some ''snapshot does not exist'')\<rparr>)
     ''nfs:tank/k8s/vol1@snap1'') = Inr ()"
proof -
  have m: "snapshotReportedMissing
     (offlineService\<lparr>api_DeleteSnapshot := (\<lambda>_. Some ''snapshot does not exist'')\<rparr>)
     ''nfs:tank/k8s/vol1@snap1''"
    by (simp add: snapshotReportedMissing_def decodeSnapshotID_def decodeCompactSnapshotID_def
        strings_HasPrefix_def DetachedSnapshotPrefix_def ProtocolNFS_def strings_LastIndex_def
        resolveZFSSnapshotName_def notFoundAnswer_def isNotFoundError_def containsAny_def
        Let_def)
  show ?thesis
    using m DeleteSnapshot_missing_is_success [OF _ m] by simp
qed

text \<open>
  C3 (as stated) fails on the empty snapshot ID: it does not decode, so no snapshot exists
  for it, and \<open>DeleteSnapshot\<close> answers \<open>InvalidArgument\<close>.
\<close>

theorem DeleteSnapshot_empty_id_counterexample:
  "snapshotReportedMissing offlineService [] \<and>
   fst (DeleteSnapshot offlineService []) = Inl InvalidArgument"
  by (simp add: snapshotReportedMissing_def DeleteSnapshot_def decodeSnapshotID_def
      decodeCompactSnapshotID_def strings_HasPrefix_def DetachedSnapshotPrefix_def)

text \<open>
  C4 (as the code has it). Once \<open>deleteDetachedSnapshot\<close> has a dataset path: if the
  property read succeeds, the dataset is deleted only when \<open>managed_by\<close> is the sentinel
  and \<open>detached_snapshot\<close> is \<open>true\<close>, and otherwise the RPC fails with
  \<open>FailedPrecondition\<close> and no delete is issued; if the read answers not-found the RPC
  succeeds without a delete; if the read fails in any other way the delete is issued
  without verification.
\<close>

theorem deleteDetachedSnapshot_ownership_check:
  assumes path: "fst (resolveDetachedDatasetPath s meta) = datasetPath" "datasetPath \<noteq> []"
  shows "case api_GetDatasetProperties s datasetPath detachedWantedProps of
           Inr props \<Rightarrow>
             if map_get props PropertyManagedBy = ManagedByValue \<and>
                map_get props PropertyDetachedSnapshot = VolumeContextValueTrue
             then Call_DeleteDataset datasetPath \<in> set (snd (deleteDetachedSnapshot s meta))
             else fst (deleteDetachedSnapshot s meta) = Inl FailedPrecondition \<and>
                  (\<forall>d. Call_DeleteDataset d \<notin> set (snd (deleteDetachedSnapshot s meta)))
         | Inl err \<Rightarrow>
             if isNotFoundError err
             then fst (deleteDetachedSnapshot s meta) = Inr () \<and>
                  (\<forall>d. Call_DeleteDataset d \<notin> set (snd (deleteDetachedSnapshot s meta)))
             else Call_DeleteDataset datasetPath \<in> set (snd (deleteDetachedSnapshot s meta))"
proof -
  obtain tr1 where r: "resolveDetachedDatasetPath s meta = (datasetPath, tr1)"
    using path(1) by (cases "resolveDetachedDatasetPath s meta") auto
  have tr1: "\<forall>d. Call_DeleteDataset d \<notin> set tr1"
    using r by (auto simp: resolveDetachedDatasetPath_def split: if_splits sum.splits option.splits)
  show ?thesis
    using r tr1 path(2)
    by (auto simp: deleteDetachedSnapshot_def Let_def deleteDetachedDataset_snd
        split: sum.splits)
qed

theorem deleteDetachedSnapshot_ownership_check_witness:
  "fst (deleteDetachedSnapshot
          (foreignLookup\<lparr>api_GetDatasetProperties :=
             (\<lambda>_ _. Inr [PropertyManagedBy \<mapsto> ''someone-else'',
                          PropertyDetachedSnapshot \<mapsto> ''true''])\<rparr>) detachedMeta)
     = Inl FailedPrecondition \<and>
   (\<forall>d. Call_DeleteDataset d \<notin> set (snd (deleteDetachedSnapshot
          (foreignLookup\<lparr>api_GetDatasetProperties :=
             (\<lambda>_ _. Inr [PropertyManagedBy \<mapsto> ''someone-else'',
                          PropertyDetachedSnapshot \<mapsto> ''true''])\<rparr>) detachedMeta)))"
  using deleteDetachedSnapshot_ownership_check
    [of "foreignLookup\<lparr>api_GetDatasetProperties :=
             (\<lambda>_ _. Inr [PropertyManagedBy \<mapsto> ''someone-else'',
                          PropertyDetachedSnapshot \<mapsto> ''true''])\<rparr>"
        detachedMeta "''tank/data/important''"]
  by (simp add: foreignLookup_def detachedMeta_def resolveDetachedDatasetPath_def
      map_get_def ManagedByValue_def PropertyManagedBy_def PropertyDetachedSnapshot_def)

text \<open>
  C4 (as stated) fails when the property read fails with an error other than not-found:
  the dataset found by the lookup is deleted although nothing was verified.
\<close>

theorem deleteDetachedSnapshot_unverified_delete_counterexample:
  "decodeSnapshotID ''detached:nfs:tank/k8s/vol1@snap-dr'' = Inr detachedMeta \<and>
   api_GetDatasetProperties foreignLookup ''tank/data/important'' detachedWantedProps =
     Inl ''connection lost'' \<and>
   DeleteSnapshot foreignLookup ''detached:nfs:tank/k8s/vol1@snap-dr'' =
     (Inr (),
      [Call_lookupSnapshotByCSIName [] ''snap-dr'',
       Call_GetDatasetProperties ''tank/data/important'' detachedWantedProps,
       Log_Warning ''Failed to get properties for detached snapshot dataset'',
       Call_DeleteDataset ''tank/data/important''])"
  by (simp add: DeleteSnapshot_def decodeSnapshotID_def decodeCompactSnapshotID_def
      strings_HasPrefix_def strings_TrimPrefix_def DetachedSnapshotPrefix_def ProtocolNFS_def
      strings_LastIndex_def detachedMeta_def foreignLookup_def offlineService_def
      deleteDetachedSnapshot_def resolveDetachedDatasetPath_def deleteDetachedDataset_def
      isNotFoundError_def containsAny_def Let_def)

section \<open>Device size verification\<close>

lemma sint_minTolerance: "sint minTolerance = 104857600"
  by (simp add: minTolerance_def)

lemma sint64_bounds: "- (2 ^ 63) \<le> sint (w :: 64 word) \<and> sint w < 2 ^ 63"
  using sint_ge [of w] sint_lt [of w] by simp

lemma sint_sub_nonneg:
  fixes a e :: "64 word"
  assumes "0 \<le> sint a" "0 \<le> sint e"
  shows "sint (e - a) = sint e - sint a"
proof -
  have "- (2 ^ 63) \<le> sint e - sint a" "sint e - sint a < 2 ^ 63"
    using assms sint64_bounds [of a] sint64_bounds [of e] by auto
  then show ?thesis
    by (simp add: sint_word_ariths signed_take_bit_int_eq_self)
qed

lemma sint_tenth:
  fixes e :: "64 word"
  assumes "0 < sint e"
  shows "sint (word_of_int (sint e sdiv 10) :: 64 word) = sint e div 10"
proof -
  have d: "sint e sdiv 10 = sint e div 10"
    using assms by (simp add: signed_divide_int_def sgn_if)
  have "0 \<le> sint e div 10" "sint e div 10 < 2 ^ 63"
    using assms sint64_bounds [of e] by auto
  then show ?thesis
    by (simp add: d sint_sbintrunc' signed_take_bit_int_eq_self)
qed

lemma verifySizeMatch_iff:
  assumes a: "0 \<le> sint a" and e: "0 < sint e"
  shows "verifySizeMatch a e = None \<longleftrightarrow>
         sint e \<le> sint a \<or> sint e - sint a \<le> max (sint e div 10) (100 * 1024 * 1024)"
proof -
  have sub: "sint (e - a) = sint e - sint a"
    using a e by (simp add: sint_sub_nonneg)
  show ?thesis
    using sint_tenth [OF e] sub
    by (auto simp: verifySizeMatch_def Let_def word_sle_eq word_sless_alt sint_minTolerance)
qed

text \<open>
  C5. For a device size \<open>a \<ge> 0\<close> and an expected capacity \<open>e > 0\<close> (as \<open>int64\<close>),
  verification passes when \<open>a \<ge> e\<close> or \<open>e - a \<le> max(e/10, 100 MiB)\<close>, and fails otherwise;
  the staging path (\<open>formatAndMountNVMeDevice\<close>, and \<open>stageNVMeDevice\<close> once the device has
  initialised) turns the failure into \<open>FailedPrecondition\<close>.
\<close>

theorem device_size_verification:
  assumes a: "0 \<le> sint a" and e: "0 < sint e"
    and dev: "dev_statOK dev" "dev_blockSize dev = Inr a"
      "getExpectedCapacity dev (map_get volumeContext ''datasetName'') volumeContext = e"
  shows "(sint e \<le> sint a \<or> sint e - sint a \<le> max (sint e div 10) (100 * 1024 * 1024) \<longrightarrow>
            verifySizeMatch a e = None \<and> verifyDeviceSize dev volumeContext = None) \<and>
         (\<not> (sint e \<le> sint a \<or> sint e - sint a \<le> max (sint e div 10) (100 * 1024 * 1024)) \<longrightarrow>
            verifySizeMatch a e = Some ErrDeviceSizeMismatch \<and>
            formatAndMountNVMeDevice dev volumeContext = Inl (StatusError FailedPrecondition) \<and>
            (dev_waitForDeviceInitialization dev = None \<longrightarrow>
               stageNVMeDevice dev False volumeContext = Inl (StatusError FailedPrecondition)))"
proof -
  have ne: "e \<noteq> 0" using e by auto
  have m: "verifySizeMatch a e \<noteq> None \<Longrightarrow> verifySizeMatch a e = Some ErrDeviceSizeMismatch"
    by (auto simp: verifySizeMatch_def Let_def split: if_splits)
  have v: "verifyDeviceSize dev volumeContext = verifySizeMatch a e"
    using dev ne by (simp add: verifyDeviceSize_def Let_def)
  show ?thesis
    using verifySizeMatch_iff [OF a e] v m dev(1)
    by (auto simp: formatAndMountNVMeDevice_def stageNVMeDevice_def)
qed

theorem device_size_verification_witness:
  "verifySizeMatch 9663676415 10737418240 = Some ErrDeviceSizeMismatch \<and>
   formatAndMountNVMeDevice (healthyDevice\<lparr>dev_blockSize := Inr 9663676415\<rparr>)
     [''expectedCapacity'' \<mapsto> ''10737418240''] = Inl (StatusError FailedPrecondition) \<and>
   verifyDeviceSize (healthyDevice\<lparr>dev_blockSize := Inr 9663676416\<rparr>)
     [''expectedCapacity'' \<mapsto> ''10737418240''] = None"
  using device_size_verification
    [of 9663676415 10737418240 "healthyDevice\<lparr>dev_blockSize := Inr 9663676415\<rparr>"
        "[''expectedCapacity'' \<mapsto> ''10737418240'']"]
    device_size_verification
    [of 9663676416 10737418240 "healthyDevice\<lparr>dev_blockSize := Inr 9663676416\<rparr>"
        "[''expectedCapacity'' \<mapsto> ''10737418240'']"]
  by (simp add: healthyDevice_def getExpectedCapacity_def map_get_def)

section \<open>The attach loop\<close>

lemma connectAttempt_device_absent:
  assumes "connectNVMeOFTarget env n = None" "waitForSubsystemLive env n = None"
    "isl (waitForNVMeDevice env n)"
  shows "connectAttempt env b vc n = (Inr (), deviceAbsentEvents n)"
  using assms
  by (cases "waitForNVMeDevice env n") (auto simp: connectAttempt_def deviceAbsentEvents_def)

lemma connectAttempts_unfold_absent:
  assumes "connectNVMeOFTarget env n = None" "waitForSubsystemLive env n = None"
    "isl (waitForNVMeDevice env n)" "\<not> maxConnectRetries < n" "\<not> ctxDone env n"
  shows "connectAttempts env b vc n =
           (fst (connectAttempts env b vc (n + 1)),
            deviceAbsentEvents n @ snd (connectAttempts env b vc (n + 1)))"
  using assms connectAttempt_device_absent [of env n b vc]
  by (subst connectAttempts.simps) (simp add: case_prod_beta)

lemma connectAttempts_device_absent_code:
  assumes never: "\<forall>n. connectNVMeOFTarget env n = None \<and> waitForSubsystemLive env n = None \<and>
                      isl (waitForNVMeDevice env n)"
  shows "fst (connectAttempts env b vc attempt) =
           (if \<exists>k. attempt \<le> k \<and> k \<le> maxConnectRetries \<and> ctxDone env k
            then Inl (StatusError DeadlineExceeded) else Inl (StatusError Internal))"
  using never
proof (induction env b vc attempt rule: connectAttempts.induct)
  case (1 env b vc attempt)
  show ?case
  proof (cases "maxConnectRetries < attempt")
    case True
    then show ?thesis
      by (subst connectAttempts.simps) auto
  next
    case le: False
    show ?thesis
    proof (cases "ctxDone env attempt")
      case True
      have "\<exists>k. attempt \<le> k \<and> k \<le> maxConnectRetries \<and> ctxDone env k"
        using True le by (intro exI [of _ attempt]) simp
      then show ?thesis
        using True le by (subst connectAttempts.simps) simp
    next
      case False
      have never': "connectAttempt env b vc attempt = (Inr (), deviceAbsentEvents attempt)"
        using "1.prems" by (simp add: connectAttempt_device_absent)
      have IH: "fst (connectAttempts env b vc (attempt + 1)) =
           (if \<exists>k. attempt + 1 \<le> k \<and> k \<le> maxConnectRetries \<and> ctxDone env k
            then Inl (StatusError DeadlineExceeded) else Inl (StatusError Internal))"
        using "1.IH" [OF le False never' [symmetric] refl "1.prems"] .
      have ex: "(\<exists>k. attempt \<le> k \<and> k \<le> maxConnectRetries \<and> ctxDone env k) \<longleftrightarrow>
                (\<exists>k. attempt + 1 \<le> k \<and> k \<le> maxConnectRetries \<and> ctxDone env k)"
        using False by (metis Suc_eq_plus1 Suc_leI le_neq_implies_less Suc_leD)
      have "fst (connectAttempts env b vc attempt) = fst (connectAttempts env b vc (attempt + 1))"
        using connectAttempts_unfold_absent [of env attempt b vc] "1.prems" le False by simp
      then show ?thesis
        using IH ex by simp
    qed
  qed
qed

lemma connectAttempts_device_absent_events:
  assumes never: "\<forall>n. connectNVMeOFTarget env n = None \<and> waitForSubsystemLive env n = None \<and>
                      isl (waitForNVMeDevice env n)"
    and live: "\<forall>k. attempt \<le> k \<and> k \<le> maxConnectRetries \<longrightarrow> \<not> ctxDone env k"
  shows "snd (connectAttempts env b vc attempt) =
           concat (map deviceAbsentEvents [attempt ..< Suc maxConnectRetries])"
  using never live
proof (induction env b vc attempt rule: connectAttempts.induct)
  case (1 env b vc attempt)
  show ?case
  proof (cases "maxConnectRetries < attempt")
    case True
    then show ?thesis
      by (subst connectAttempts.simps) auto
  next
    case le: False
    then have nd: "\<not> ctxDone env attempt" using "1.prems"(2) by simp
    have never': "connectAttempt env b vc attempt = (Inr (), deviceAbsentEvents attempt)"
      using "1.prems"(1) by (simp add: connectAttempt_device_absent)
    have live': "\<forall>k. attempt + 1 \<le> k \<and> k \<le> maxConnectRetries \<longrightarrow> \<not> ctxDone env k"
      using "1.prems"(2) by simp
    have IH: "snd (connectAttempts env b vc (attempt + 1)) =
           concat (map deviceAbsentEvents [attempt + 1 ..< Suc maxConnectRetries])"
      using "1.IH" [OF le nd never' [symmetric] refl "1.prems"(1) live'] .
    have up: "[attempt ..< Suc maxConnectRetries] =
              attempt # [attempt + 1 ..< Suc maxConnectRetries]"
      using le by (simp add: upt_conv_Cons del: upt_Suc)
    have "snd (connectAttempts env b vc attempt) =
          deviceAbsentEvents attempt @ snd (connectAttempts env b vc (attempt + 1))"
      using connectAttempts_unfold_absent [of env attempt b vc] "1.prems"(1) le nd by simp
    then show ?thesis
      using IH up by simp
  qed
qed

text \<open>
  C6 (as the code has it). When connect and wait-live succeed and the device never appears,
  \<open>connectAndStageDevice\<close> runs the full attempt (connect, wait-live, wait-device,
  disconnect) 10 times and then fails with \<open>Internal\<close>; it fails with \<open>DeadlineExceeded\<close>
  exactly when the parent context is found done at the start of one of the 10 attempts.
\<close>

theorem attach_loop_device_never_appears:
  assumes never: "\<forall>n. connectNVMeOFTarget env n = None \<and> waitForSubsystemLive env n = None \<and>
                      isl (waitForNVMeDevice env n)"
  shows "(if \<exists>k. 1 \<le> k \<and> k \<le> 10 \<and> ctxDone env k
          then fst (connectAndStageDevice env isBlockVolume volumeContext) =
                 Inl (StatusError DeadlineExceeded)
          else connectAndStageDevice env isBlockVolume volumeContext =
                 (Inl (StatusError Internal),
                  concat (map deviceAbsentEvents [1 ..< 11])))"
proof (cases "\<exists>k. 1 \<le> k \<and> k \<le> 10 \<and> ctxDone env k")
  case True
  then show ?thesis
    using connectAttempts_device_absent_code [OF never, of isBlockVolume volumeContext 1]
    by (simp add: connectAndStageDevice_def maxConnectRetries_def)
next
  case False
  then have live: "\<forall>k. 1 \<le> k \<and> k \<le> maxConnectRetries \<longrightarrow> \<not> ctxDone env k"
    by (simp add: maxConnectRetries_def)
  have c: "fst (connectAttempts env isBlockVolume volumeContext 1) = Inl (StatusError Internal)"
    using connectAttempts_device_absent_code [OF never, of isBlockVolume volumeContext 1] False
    by (simp add: maxConnectRetries_def)
  have e: "snd (connectAttempts env isBlockVolume volumeContext 1) =
           concat (map deviceAbsentEvents [1 ..< 11])"
    using connectAttempts_device_absent_events [OF never live, of isBlockVolume volumeContext]
    by (simp add: maxConnectRetries_def)
  show ?thesis
    using False c e by (simp add: connectAndStageDevice_def prod_eq_iff)
qed

theorem attach_loop_device_never_appears_witness:
  "connectAndStageDevice deviceNeverAppears False Map.empty =
     (Inl (StatusError Internal), concat (map deviceAbsentEvents [1 ..< 11])) \<and>
   fst (connectAndStageDevice (deviceNeverAppears\<lparr>ctxDone := (\<lambda>n. 3 \<le> n)\<rparr>) False Map.empty) =
     Inl (StatusError DeadlineExceeded)"
proof -
  have ex: "\<exists>k. 1 \<le> k \<and> k \<le> 10 \<and> ctxDone (deviceNeverAppears\<lparr>ctxDone := (\<lambda>n. 3 \<le> n)\<rparr>) k"
    by (rule exI [of _ 3]) simp
  have nex: "\<not> (\<exists>k. 1 \<le> k \<and> k \<le> 10 \<and> ctxDone deviceNeverAppears k)"
    by (simp add: deviceNeverAppears_def)
  show ?thesis
    using ex nex attach_loop_device_never_appears [of deviceNeverAppears False Map.empty]
      attach_loop_device_never_appears
        [of "deviceNeverAppears\<lparr>ctxDone := (\<lambda>n. 3 \<le> n)\<rparr>" False Map.empty]
    by (simp add: deviceNeverAppears_def)
qed

text \<open>
  C6 (as stated) fails: with a parent context that is never cancelled, the tenth failed
  attempt is followed by \<open>Internal\<close>, not \<open>DeadlineExceeded\<close>.
\<close>

theorem attach_loop_exhausted_counterexample:
  "fst (connectAndStageDevice deviceNeverAppears False Map.empty) = Inl (StatusError Internal) \<and>
   length (filter (\<lambda>e. case e of Ev_Connect n \<Rightarrow> True | _ \<Rightarrow> False)
             (snd (connectAndStageDevice deviceNeverAppears False Map.empty))) = 10"
proof -
  have never: "\<forall>n. connectNVMeOFTarget deviceNeverAppears n = None \<and>
                   waitForSubsystemLive deviceNeverAppears n = None \<and>
                   isl (waitForNVMeDevice deviceNeverAppears n)"
    by (simp add: deviceNeverAppears_def)
  have live: "\<forall>k. 1 \<le> k \<and> k \<le> maxConnectRetries \<longrightarrow> \<not> ctxDone deviceNeverAppears k"
    by (simp add: deviceNeverAppears_def)
  have c: "fst (connectAttempts deviceNeverAppears False Map.empty 1) = Inl (StatusError Internal)"
    using connectAttempts_device_absent_code [OF never, of False Map.empty 1]
    by (simp add: deviceNeverAppears_def)
  have u: "[1 ..< Suc maxConnectRetries] = [1, 2, 3, 4, 5, 6, 7, 8, 9, 10 :: nat]"
    by (simp add: maxConnectRetries_def upt_rec)
  have e: "snd (connectAttempts deviceNeverAppears False Map.empty 1) =
           concat (map deviceAbsentEvents [1, 2, 3, 4, 5, 6, 7, 8, 9, 10])"
    using connectAttempts_device_absent_events [OF never live, of False Map.empty] u
    by simp
  show ?thesis
    using c e
    by (simp add: connectAndStageDevice_def deviceAbsentEvents_def retrySleep_def
        maxConnectRetries_def)
qed

section \<open>Detached CreateSnapshot\<close>






section \<open>Restore from a detached snapshot\<close>

lemma decodeCompactSnapshotID_fields:
  "decodeCompactSnapshotID sid = Inr m \<Longrightarrow> DatasetName m = [] \<and> \<not> Detached m"
  by (auto simp: decodeCompactSnapshotID_def Let_def split: option.splits if_splits)

lemma decodeSnapshotID_DatasetName:
  "decodeSnapshotID sid = Inr m \<Longrightarrow> DatasetName m = []"
  using decodeCompactSnapshotID_fields
  by (fastforce simp: decodeSnapshotID_def split: if_splits sum.splits)

lemma executeDetachedSnapshotRestore_run:
  "executeDetachedSnapshotRestore s m cp =
     (let dataset = DatasetName m;
          tempName = ''csi-restore-for-'' @ cp_newVolumeName cp;
          tempFull = dataset @ ''@'' @ tempName;
          target = cp_newDatasetName cp;
          listed = (case api_QuerySnapshots s [(''dataset'', ''='', dataset)] of
                      Inl e \<Rightarrow> False
                    | Inr snaps \<Rightarrow> list_ex (\<lambda>snap. snap_Name snap = tempFull) snaps);
          createFailed = (\<not> listed \<and> isl (api_CreateSnapshot s dataset tempName))
      in (if createFailed then Inl Internal
          else (case api_CloneSnapshot s tempFull target of
                  Inl e \<Rightarrow> Inl Internal
                | Inr cloned \<Rightarrow> Inr cloned),
          [Call_QuerySnapshots [(''dataset'', ''='', dataset)]]
          @ (if listed then [] else [Call_CreateSnapshot dataset tempName])
          @ (if createFailed then [] else [Call_CloneSnapshot tempFull target])))"
  by (simp add: executeDetachedSnapshotRestore_def Let_def split: sum.splits)

lemma getVolumeParametersForSnapshot_cases:
  "(\<exists>sv. getVolumeParametersForSnapshot s params m cloned = (Inr sv, [])) \<or>
   getVolumeParametersForSnapshot s params m cloned =
     (Inl InvalidArgument, [Call_DeleteDataset (ds_ID cloned)])"
  by (auto simp: getVolumeParametersForSnapshot_def validateServerParameter_def Let_def
      split: if_splits)

lemma setupVolumeFromClone_cases:
  "snd (setupVolumeFromClone s req cloned protocol server nqn info) = [] \<or>
   setupVolumeFromClone s req cloned protocol server nqn info =
     (Inl InvalidArgument, [Call_DeleteDataset (ds_ID cloned)])"
  by (auto simp: setupVolumeFromClone_def)

lemma validateCloneParameters_fields:
  "validateCloneParameters req m = Inr cp \<Longrightarrow>
     cp_newVolumeName cp = req_Name req \<and>
     cp_newDatasetName cp = cp_parentDataset cp @ ''/'' @ req_Name req"
  by (auto simp: validateCloneParameters_def Let_def split: if_splits option.splits)

lemma createVolumeFromSnapshot_detached:
  assumes dec: "decodeSnapshotID snapshotID = Inr decoded" and det: "Detached decoded"
    and look: "lookupSnapshotByCSIName s [] (SnapshotName decoded) = Inr (Some found)"
    and meta: "snapshotMeta = decoded\<lparr>DatasetName := DatasetName found,
                 Protocol := (if Protocol found \<noteq> [] then Protocol found else Protocol decoded),
                 SourceVolume := (if SourceVolume found \<noteq> [] then SourceVolume found
                                  else SourceVolume decoded)\<rparr>"
  shows "createVolumeFromSnapshot s req snapshotID =
           (case validateCloneParameters req snapshotMeta of
              Inl validateErr \<Rightarrow>
                (Inl validateErr, [Call_lookupSnapshotByCSIName [] (SnapshotName decoded)])
            | Inr cloneParams \<Rightarrow>
                (case executeDetachedSnapshotRestore s snapshotMeta cloneParams of
                   (Inl cloneErr, tr1) \<Rightarrow>
                     (Inl cloneErr, [Call_lookupSnapshotByCSIName [] (SnapshotName decoded)] @ tr1)
                 | (Inr clonedDataset, tr1) \<Rightarrow>
                     (case getVolumeParametersForSnapshot s (req_Parameters req) snapshotMeta
                             clonedDataset of
                        (Inl err, tr2) \<Rightarrow>
                          (Inl err,
                           [Call_lookupSnapshotByCSIName [] (SnapshotName decoded)] @ tr1 @ tr2)
                      | (Inr (server, subsystemNQN), tr2) \<Rightarrow>
                          (case setupVolumeFromClone s req clonedDataset (Protocol snapshotMeta)
                                  server subsystemNQN
                                  \<lparr>ci_Mode = CloneModeCOW,
                                   ci_OriginSnapshot =
                                     DatasetName snapshotMeta @ ''@csi-restore-for-'' @ req_Name req,
                                   ci_SnapshotID = snapshotID\<rparr> of
                             (result, tr3) \<Rightarrow>
                               (result,
                                [Call_lookupSnapshotByCSIName [] (SnapshotName decoded)]
                                @ tr1 @ tr2 @ tr3)))))"
proof -
  have dn: "DatasetName decoded = []"
    using dec by (rule decodeSnapshotID_DatasetName)
  have res: "resolveSnapshotMetadata s decoded =
             (Inr snapshotMeta, [Call_lookupSnapshotByCSIName [] (SnapshotName decoded)])"
    using dn det look meta
    by (simp add: resolveSnapshotMetadata_def resolveDetachedSnapshotMetadata_def)
  have mode: "\<And>params. selectCloneMode snapshotMeta params = cloneModeDetachedSnapshotRestore"
    using det meta by (simp add: selectCloneMode_def Let_def)
  show ?thesis
    using dec res mode
    by (simp add: createVolumeFromSnapshot_def Let_def split: sum.splits prod.splits)
qed


text \<open>
  C7. When the content source decodes as a detached snapshot, whatever the class
  parameters of the request: if the property lookup finds no dataset the RPC fails with
  \<open>NotFound\<close>. Otherwise, with \<open>dataset\<close> the detached-snapshot dataset found and \<open>target\<close>
  the dataset of the new volume (\<open>parent/name\<close> of the request), the calls on the
  appliance are exactly: the lookup; the snapshot listing of \<open>dataset\<close>; the creation of
  the snapshot \<open>csi-restore-for-<name>\<close> on \<open>dataset\<close>, unless the listing already shows
  it; and, unless that creation failed, one clone of that snapshot to \<open>target\<close>. The only
  call that may follow is the deletion of the cloned dataset, by the ID the appliance
  returned for it, when the request then fails with \<open>InvalidArgument\<close>. So nothing is
  promoted, no snapshot is deleted, and no dataset but the clone is deleted; and when the
  RPC succeeds the trace is exactly those calls, ending with the clone, which succeeded.
\<close>

theorem restore_from_detached_snapshot:
  assumes dec: "decodeSnapshotID snapshotID = Inr decoded" and det: "Detached decoded"
  shows "case lookupSnapshotByCSIName s [] (SnapshotName decoded) of
           Inr (Some found) \<Rightarrow>
             (case validateCloneParameters req (decoded\<lparr>DatasetName := DatasetName found\<rparr>) of
                Inl validateErr \<Rightarrow>
                  createVolumeFromSnapshot s req snapshotID =
                    (Inl validateErr, [Call_lookupSnapshotByCSIName [] (SnapshotName decoded)])
              | Inr cp \<Rightarrow>
                  (let dataset = DatasetName found;
                       tempName = ''csi-restore-for-'' @ req_Name req;
                       tempFull = dataset @ ''@'' @ tempName;
                       target = cp_newDatasetName cp;
                       listed = (case api_QuerySnapshots s [(''dataset'', ''='', dataset)] of
                                   Inl e \<Rightarrow> False
                                 | Inr snaps \<Rightarrow>
                                     list_ex (\<lambda>snap. snap_Name snap = tempFull) snaps);
                       createFailed = (\<not> listed \<and> isl (api_CreateSnapshot s dataset tempName));
                       calls = [Call_lookupSnapshotByCSIName [] (SnapshotName decoded),
                                Call_QuerySnapshots [(''dataset'', ''='', dataset)]]
                               @ (if listed then [] else [Call_CreateSnapshot dataset tempName])
                               @ (if createFailed then []
                                  else [Call_CloneSnapshot tempFull target]);
                       result = fst (createVolumeFromSnapshot s req snapshotID);
                       trace = snd (createVolumeFromSnapshot s req snapshotID)
                   in target = cp_parentDataset cp @ ''/'' @ req_Name req \<and>
                      (trace = calls \<or>
                       (\<exists>cloned. \<not> createFailed \<and>
                          api_CloneSnapshot s tempFull target = Inr cloned \<and>
                          trace = calls @ [Call_DeleteDataset (ds_ID cloned)] \<and>
                          result = Inl InvalidArgument)) \<and>
                      (\<not> isl result \<longrightarrow>
                         trace = calls \<and> \<not> createFailed \<and>
                         \<not> isl (api_CloneSnapshot s tempFull target))))
         | Inr None \<Rightarrow>
             createVolumeFromSnapshot s req snapshotID =
               (Inl NotFound, [Call_lookupSnapshotByCSIName [] (SnapshotName decoded)])
         | Inl err \<Rightarrow>
             createVolumeFromSnapshot s req snapshotID =
               (Inl NotFound, [Call_lookupSnapshotByCSIName [] (SnapshotName decoded)])"
proof (cases "lookupSnapshotByCSIName s [] (SnapshotName decoded)")
  case (Inl err)
  have dn: "DatasetName decoded = []"
    using dec by (rule decodeSnapshotID_DatasetName)
  show ?thesis
    using Inl dec det dn
    by (simp add: createVolumeFromSnapshot_def resolveSnapshotMetadata_def
        resolveDetachedSnapshotMetadata_def)
next
  case (Inr r)
  have dn: "DatasetName decoded = []"
    using dec by (rule decodeSnapshotID_DatasetName)
  show ?thesis
  proof (cases r)
    case None
    show ?thesis
      using Inr None dec det dn
      by (simp add: createVolumeFromSnapshot_def resolveSnapshotMetadata_def
          resolveDetachedSnapshotMetadata_def)
  next
    case (Some found)
    define snapshotMeta where "snapshotMeta = decoded\<lparr>DatasetName := DatasetName found,
                 Protocol := (if Protocol found \<noteq> [] then Protocol found else Protocol decoded),
                 SourceVolume := (if SourceVolume found \<noteq> [] then SourceVolume found
                                  else SourceVolume decoded)\<rparr>"
    have look: "lookupSnapshotByCSIName s [] (SnapshotName decoded) = Inr (Some found)"
      using Inr Some by simp
    have dsn: "DatasetName snapshotMeta = DatasetName found"
      by (simp add: snapshotMeta_def)
    have val: "validateCloneParameters req (decoded\<lparr>DatasetName := DatasetName found\<rparr>) =
               validateCloneParameters req snapshotMeta"
      by (simp add: snapshotMeta_def validateCloneParameters_def Let_def cong: option.case_cong)
    note unfold = createVolumeFromSnapshot_detached [OF dec det look snapshotMeta_def, of req]
    show ?thesis
    proof (cases "validateCloneParameters req snapshotMeta")
      case (Inl verr)
      show ?thesis
        using look unfold Inl val by simp
    next
      case (Inr cp)
      have nm: "cp_newVolumeName cp = req_Name req"
        and tg: "cp_newDatasetName cp = cp_parentDataset cp @ ''/'' @ req_Name req"
        using validateCloneParameters_fields [OF Inr] by simp_all
      define dataset where "dataset = DatasetName found"
      define tempName where "tempName = ''csi-restore-for-'' @ req_Name req"
      define tempFull where "tempFull = dataset @ ''@'' @ tempName"
      define target where "target = cp_newDatasetName cp"
      define listed where "listed =
         (case api_QuerySnapshots s [(''dataset'', ''='', dataset)] of
            Inl e \<Rightarrow> False
          | Inr snaps \<Rightarrow> list_ex (\<lambda>snap. snap_Name snap = tempFull) snaps)"
      define createFailed where
        "createFailed = (\<not> listed \<and> isl (api_CreateSnapshot s dataset tempName))"
      define calls where "calls =
         [Call_lookupSnapshotByCSIName [] (SnapshotName decoded),
          Call_QuerySnapshots [(''dataset'', ''='', dataset)]]
         @ (if listed then [] else [Call_CreateSnapshot dataset tempName])
         @ (if createFailed then [] else [Call_CloneSnapshot tempFull target])"
      note defs = dataset_def tempName_def tempFull_def target_def listed_def
        createFailed_def calls_def
      have ex: "executeDetachedSnapshotRestore s snapshotMeta cp =
                  (if createFailed then Inl Internal
                   else (case api_CloneSnapshot s tempFull target of
                           Inl e \<Rightarrow> Inl Internal
                         | Inr cloned \<Rightarrow> Inr cloned),
                   tl calls)"
        unfolding defs
        by (simp add: executeDetachedSnapshotRestore_run [of s snapshotMeta cp] dsn nm Let_def
            cong: sum.case_cong)
      have hdc: "calls = Call_lookupSnapshotByCSIName [] (SnapshotName decoded) # tl calls"
        by (simp add: calls_def)
      have goal: "target = cp_parentDataset cp @ ''/'' @ req_Name req \<and>
                  (snd (createVolumeFromSnapshot s req snapshotID) = calls \<or>
                   (\<exists>cloned. \<not> createFailed \<and>
                      api_CloneSnapshot s tempFull target = Inr cloned \<and>
                      snd (createVolumeFromSnapshot s req snapshotID) =
                        calls @ [Call_DeleteDataset (ds_ID cloned)] \<and>
                      fst (createVolumeFromSnapshot s req snapshotID) = Inl InvalidArgument)) \<and>
                  (\<not> isl (fst (createVolumeFromSnapshot s req snapshotID)) \<longrightarrow>
                     snd (createVolumeFromSnapshot s req snapshotID) = calls \<and> \<not> createFailed \<and>
                     \<not> isl (api_CloneSnapshot s tempFull target))"
      proof (cases "createFailed \<or> isl (api_CloneSnapshot s tempFull target)")
        case True
        then have "executeDetachedSnapshotRestore s snapshotMeta cp = (Inl Internal, tl calls)"
          using ex by (auto split: sum.splits)
        then have "createVolumeFromSnapshot s req snapshotID = (Inl Internal, calls)"
          using unfold Inr hdc by simp
        then show ?thesis using tg target_def by simp
      next
        case False
        then obtain cloned where cl: "api_CloneSnapshot s tempFull target = Inr cloned"
          and ncf: "\<not> createFailed"
          by (cases "api_CloneSnapshot s tempFull target") auto
        have exr: "executeDetachedSnapshotRestore s snapshotMeta cp = (Inr cloned, tl calls)"
          using ex cl ncf by simp
        show ?thesis
          using getVolumeParametersForSnapshot_cases
            [of s "req_Parameters req" snapshotMeta cloned]
        proof
          assume "getVolumeParametersForSnapshot s (req_Parameters req) snapshotMeta cloned =
                    (Inl InvalidArgument, [Call_DeleteDataset (ds_ID cloned)])"
          then have "createVolumeFromSnapshot s req snapshotID =
                       (Inl InvalidArgument, calls @ [Call_DeleteDataset (ds_ID cloned)])"
            using unfold Inr exr hdc by simp
          then show ?thesis using tg target_def cl ncf by simp
        next
          assume "\<exists>sv. getVolumeParametersForSnapshot s (req_Parameters req) snapshotMeta cloned =
                    (Inr sv, [])"
          then obtain server nqn where gp:
            "getVolumeParametersForSnapshot s (req_Parameters req) snapshotMeta cloned =
               (Inr (server, nqn), [])"
            by auto
          let ?info = "\<lparr>ci_Mode = CloneModeCOW,
                         ci_OriginSnapshot =
                           DatasetName snapshotMeta @ ''@csi-restore-for-'' @ req_Name req,
                         ci_SnapshotID = snapshotID\<rparr>"
          obtain result tr3 where su: "setupVolumeFromClone s req cloned
                 (Protocol snapshotMeta) server nqn ?info = (result, tr3)"
            by (cases "setupVolumeFromClone s req cloned (Protocol snapshotMeta)
                         server nqn ?info")
          have full: "createVolumeFromSnapshot s req snapshotID = (result, calls @ tr3)"
            using unfold Inr exr gp su hdc by simp
          from setupVolumeFromClone_cases
            [of s req cloned "Protocol snapshotMeta" server nqn ?info] su
          have "tr3 = [] \<or> (result = Inl InvalidArgument \<and> tr3 = [Call_DeleteDataset (ds_ID cloned)])"
            by auto
          then show ?thesis
            using full tg target_def cl ncf by auto
        qed
      qed
      show ?thesis
        apply (simp only: look val Inr sum.case option.case Let_def)
        apply (rule goal [unfolded defs])
        done
    qed
  qed
qed

theorem restore_from_detached_snapshot_witness:
  "createVolumeFromSnapshot restoreService restoreRequest ''detached:nfs:tank/k8s/vol1@snap-dr'' =
     (Inr \<lparr>VolumeId = ''tank/pvc-restore'', VolumeContext = Map.empty\<rparr>,
      [Call_lookupSnapshotByCSIName [] ''snap-dr'',
       Call_QuerySnapshots [(''dataset'', ''='', ''tank/csi-detached-snapshots/snap-dr'')],
       Call_CreateSnapshot ''tank/csi-detached-snapshots/snap-dr'' ''csi-restore-for-pvc-restore'',
       Call_CloneSnapshot ''tank/csi-detached-snapshots/snap-dr@csi-restore-for-pvc-restore''
         ''tank/pvc-restore''])"
proof -
  have dec: "decodeSnapshotID ''detached:nfs:tank/k8s/vol1@snap-dr'' = Inr detachedMeta"
    by (simp add: decodeSnapshotID_def decodeCompactSnapshotID_def strings_HasPrefix_def
        strings_TrimPrefix_def DetachedSnapshotPrefix_def ProtocolNFS_def strings_LastIndex_def
        detachedMeta_def)
  have det: "Detached detachedMeta" by (simp add: detachedMeta_def)
  have sn: "SnapshotName detachedMeta = ''snap-dr''" by (simp add: detachedMeta_def)
  have look: "lookupSnapshotByCSIName restoreService [] ''snap-dr'' =
              Inr (Some \<lparr>SnapshotName = ''snap-dr'', SourceVolume = ''tank/k8s/vol1'',
                         DatasetName = ''tank/csi-detached-snapshots/snap-dr'',
                         Protocol = ''nfs'', CreatedAt = 0, Detached = True\<rparr>)"
    by (simp add: restoreService_def)
  have val: "validateCloneParameters restoreRequest
               (detachedMeta\<lparr>DatasetName := ''tank/csi-detached-snapshots/snap-dr''\<rparr>) =
             Inr \<lparr>cp_pool = ''tank'', cp_parentDataset = ''tank'',
                  cp_newVolumeName = ''pvc-restore'', cp_newDatasetName = ''tank/pvc-restore''\<rparr>"
    by (simp add: validateCloneParameters_def restoreRequest_def map_get_def detachedMeta_def
        Let_def)
  have res: "fst (createVolumeFromSnapshot restoreService restoreRequest
                    ''detached:nfs:tank/k8s/vol1@snap-dr'') =
             Inr \<lparr>VolumeId = ''tank/pvc-restore'', VolumeContext = Map.empty\<rparr>"
    using dec
    by (simp add: createVolumeFromSnapshot_def resolveSnapshotMetadata_def
        resolveDetachedSnapshotMetadata_def detachedMeta_def restoreService_def
        offlineService_def restoreRequest_def validateCloneParameters_def map_get_def
        selectCloneMode_def executeDetachedSnapshotRestore_def
        getVolumeParametersForSnapshot_def validateServerParameter_def
        setupVolumeFromClone_def ProtocolNFS_def ProtocolNVMeOF_def Let_def
        DetachedVolumesFromSnapshotsParam_def PromotedVolumesFromSnapshotsParam_def
        VolumeContextValueTrue_def)
  have listed: "api_QuerySnapshots restoreService
                  [(''dataset'', ''='', ''tank/csi-detached-snapshots/snap-dr'')] = Inr []"
    and created: "\<not> isl (api_CreateSnapshot restoreService
                    ''tank/csi-detached-snapshots/snap-dr'' ''csi-restore-for-pvc-restore'')"
    by (simp_all add: restoreService_def)
  have name: "req_Name restoreRequest = ''pvc-restore''"
    by (simp add: restoreRequest_def)
  from restore_from_detached_snapshot [OF dec det, of restoreService restoreRequest]
  have "snd (createVolumeFromSnapshot restoreService restoreRequest
               ''detached:nfs:tank/k8s/vol1@snap-dr'') =
        [Call_lookupSnapshotByCSIName [] ''snap-dr'',
         Call_QuerySnapshots [(''dataset'', ''='', ''tank/csi-detached-snapshots/snap-dr'')],
         Call_CreateSnapshot ''tank/csi-detached-snapshots/snap-dr'' ''csi-restore-for-pvc-restore'',
         Call_CloneSnapshot ''tank/csi-detached-snapshots/snap-dr@csi-restore-for-pvc-restore''
           ''tank/pvc-restore'']"
    by (simp add: sn look val res listed created name Let_def)
  with res show ?thesis
    by (cases "createVolumeFromSnapshot restoreService restoreRequest
                 ''detached:nfs:tank/k8s/vol1@snap-dr''") simp
qed

section \<open>Unfiltered ListSnapshots\<close>

lemma map_put_keys: "set (map fst (map_put k v al)) = insert k (set (map fst al))"
proof (induction al)
  case Nil
  show ?case by simp
next
  case (Cons x al)
  obtain k' v' where x: "x = (k', v')" by (cases x)
  show ?case
  proof (cases "k' = k")
    case True
    then show ?thesis by (simp add: x)
  next
    case False
    then show ?thesis using Cons.IH by (simp add: x insert_commute)
  qed
qed

lemma collectManagedMeta_Cons:
  "\<exists>meta. collectManagedMeta s (ds # rest) acc =
     (if dwp_UserProperties ds PropertyDetachedSnapshot = Some VolumeContextValueTrue
      then collectManagedMeta s rest acc
      else collectManagedMeta s rest (map_put (ds_ID (dwp_Dataset ds)) meta acc))"
  by (simp add: Let_def) blast

lemma managedVolumeIDs_Cons:
  "managedVolumeIDs (ds # rest) =
     (if dwp_UserProperties ds PropertyDetachedSnapshot = Some VolumeContextValueTrue
      then managedVolumeIDs rest
      else insert (ds_ID (dwp_Dataset ds)) (managedVolumeIDs rest))"
  by (auto simp: managedVolumeIDs_def)

lemma collectManagedMeta_keys:
  "set (map fst (collectManagedMeta s datasets acc)) =
     set (map fst acc) \<union> managedVolumeIDs datasets"
proof (induction datasets arbitrary: acc)
  case Nil
  then show ?case by (simp add: managedVolumeIDs_def)
next
  case (Cons ds rest)
  obtain meta where c: "collectManagedMeta s (ds # rest) acc =
     (if dwp_UserProperties ds PropertyDetachedSnapshot = Some VolumeContextValueTrue
      then collectManagedMeta s rest acc
      else collectManagedMeta s rest (map_put (ds_ID (dwp_Dataset ds)) meta acc))"
    using collectManagedMeta_Cons by blast
  show ?case
  proof (cases "dwp_UserProperties ds PropertyDetachedSnapshot = Some VolumeContextValueTrue")
    case True
    then show ?thesis
      unfolding c managedVolumeIDs_Cons using Cons.IH [of acc] by simp
  next
    case False
    have "set (map fst (collectManagedMeta s rest (map_put (ds_ID (dwp_Dataset ds)) meta acc))) =
          insert (ds_ID (dwp_Dataset ds)) (set (map fst acc)) \<union> managedVolumeIDs rest"
      using Cons.IH [of "map_put (ds_ID (dwp_Dataset ds)) meta acc"]
        map_put_keys [of "ds_ID (dwp_Dataset ds)" meta acc] by simp
    then show ?thesis
      unfolding c managedVolumeIDs_Cons using False by simp
  qed
qed

lemma querySnapshotsPerDataset_snd:
  "snd (querySnapshotsPerDataset s (dsid # rest)) =
     Call_QuerySnapshots [(''dataset'', ''='', dsid)] #
     (case api_QuerySnapshots s [(''dataset'', ''='', dsid)] of
        Inl queryErr \<Rightarrow> [Log_Warning ''Failed to query snapshots for dataset'']
      | Inr found \<Rightarrow> [])
     @ snd (querySnapshotsPerDataset s rest)"
  by (cases "api_QuerySnapshots s [(''dataset'', ''='', dsid)]")
     (simp_all add: Let_def case_prod_beta)

lemma querySnapshotsPerDataset_events:
  "ev \<in> set (snd (querySnapshotsPerDataset s ids)) \<Longrightarrow>
     (\<exists>dsid \<in> set ids. ev = Call_QuerySnapshots [(''dataset'', ''='', dsid)]) \<or>
     ev = Log_Warning ''Failed to query snapshots for dataset''"
proof (induction ids)
  case Nil
  then show ?case by simp
next
  case (Cons d rest)
  from Cons.prems have
    "ev = Call_QuerySnapshots [(''dataset'', ''='', d)] \<or>
     ev = Log_Warning ''Failed to query snapshots for dataset'' \<or>
     ev \<in> set (snd (querySnapshotsPerDataset s rest))"
    unfolding querySnapshotsPerDataset_snd
    by (cases "api_QuerySnapshots s [(''dataset'', ''='', d)]") auto
  then show ?case
    using Cons.IH by auto
qed

lemma querySnapshotsPerDataset_all:
  "dsid \<in> set ids \<Longrightarrow>
   Call_QuerySnapshots [(''dataset'', ''='', dsid)] \<in> set (snd (querySnapshotsPerDataset s ids))"
proof (induction ids)
  case Nil
  then show ?case by simp
next
  case (Cons d rest)
  show ?case
  proof (cases "dsid = d")
    case True
    then show ?thesis unfolding querySnapshotsPerDataset_snd by simp
  next
    case False
    with Cons have "Call_QuerySnapshots [(''dataset'', ''='', dsid)]
                      \<in> set (snd (querySnapshotsPerDataset s rest))"
      by simp
    then show ?thesis unfolding querySnapshotsPerDataset_snd by simp
  qed
qed

lemma listAllSnapshots_trace:
  "snd (listAllSnapshots s rangeOrder parseSnapshotToken encodeSnapshotToken now req) =
     Call_FindDatasetsByProperty [] PropertyManagedBy ManagedByValue #
     (case api_FindDatasetsByProperty s [] PropertyManagedBy ManagedByValue of
        Inl err \<Rightarrow> []
      | Inr datasets \<Rightarrow>
          snd (querySnapshotsPerDataset s
                 (rangeOrder (map fst (collectManagedMeta s datasets [])))))"
proof (cases "api_FindDatasetsByProperty s [] PropertyManagedBy ManagedByValue")
  case (Inl err)
  then show ?thesis by (simp add: listAllSnapshots_def)
next
  case (Inr datasets)
  obtain allSnapshots trQ where q:
    "querySnapshotsPerDataset s (rangeOrder (map fst (collectManagedMeta s datasets []))) =
       (allSnapshots, trQ)"
    by (cases "querySnapshotsPerDataset s
                 (rangeOrder (map fst (collectManagedMeta s datasets [])))")
  show ?thesis
  proof (cases "lreq_StartingToken req = []")
    case True
    then show ?thesis
      using Inr q by (simp add: listAllSnapshots_def Let_def)
  next
    case False
    then show ?thesis
      using Inr q
      by (cases "parseSnapshotToken (lreq_StartingToken req)")
         (simp_all add: listAllSnapshots_def Let_def)
  qed
qed

text \<open>
  C9. The unfiltered listing first searches the datasets by the \<open>managed_by\<close> property;
  if that fails nothing else is called. Otherwise every later call is a snapshot query
  filtered to one dataset (\<open>dataset = X\<close>), \<open>X\<close> being a dataset the search returned that is
  not marked \<open>detached_snapshot = true\<close>, and each such dataset is queried: no unfiltered
  snapshot query is ever issued.
\<close>

theorem listAllSnapshots_queries_per_managed_dataset:
  assumes ord: "\<forall>ks. set (rangeOrder ks) = set ks"
  shows "\<exists>rest.
           snd (listAllSnapshots s rangeOrder parseSnapshotToken encodeSnapshotToken now req) =
             Call_FindDatasetsByProperty [] PropertyManagedBy ManagedByValue # rest \<and>
           (case api_FindDatasetsByProperty s [] PropertyManagedBy ManagedByValue of
              Inl err \<Rightarrow> rest = []
            | Inr datasets \<Rightarrow>
                (\<forall>ev \<in> set rest.
                   (\<exists>dsid \<in> managedVolumeIDs datasets.
                      ev = Call_QuerySnapshots [(''dataset'', ''='', dsid)]) \<or>
                   ev = Log_Warning ''Failed to query snapshots for dataset'') \<and>
                (\<forall>dsid \<in> managedVolumeIDs datasets.
                   Call_QuerySnapshots [(''dataset'', ''='', dsid)] \<in> set rest))"
proof (cases "api_FindDatasetsByProperty s [] PropertyManagedBy ManagedByValue")
  case (Inl err)
  then show ?thesis
    by (simp add: listAllSnapshots_trace)
next
  case (Inr datasets)
  let ?ids = "rangeOrder (map fst (collectManagedMeta s datasets []))"
  have ids: "set ?ids = managedVolumeIDs datasets"
    using ord collectManagedMeta_keys [of s datasets "[]"] by simp
  have a: "\<forall>ev \<in> set (snd (querySnapshotsPerDataset s ?ids)).
             (\<exists>dsid \<in> managedVolumeIDs datasets.
                ev = Call_QuerySnapshots [(''dataset'', ''='', dsid)]) \<or>
             ev = Log_Warning ''Failed to query snapshots for dataset''"
    using querySnapshotsPerDataset_events [of _ s ?ids] ids by blast
  have b: "\<forall>dsid \<in> managedVolumeIDs datasets.
             Call_QuerySnapshots [(''dataset'', ''='', dsid)]
               \<in> set (snd (querySnapshotsPerDataset s ?ids))"
    using querySnapshotsPerDataset_all [of _ ?ids s] ids by auto
  show ?thesis
    using Inr a b by (simp add: listAllSnapshots_trace)
qed

theorem listAllSnapshots_queries_per_managed_dataset_witness:
  "listAllSnapshots listingService (\<lambda>ks. ks) (\<lambda>_. None) (\<lambda>_. []) 0
     \<lparr>lreq_MaxEntries = 0, lreq_StartingToken = []\<rparr> =
   (Inr \<lparr>Entries = [\<lparr>SnapshotId = ''nfs:pvc-333@snap1'', SourceVolumeId = ''pvc-333'',
                      CreationTime = 0, ReadyToUse = True, SizeBytes = 0\<rparr>],
         NextToken = []\<rparr>,
    [Call_FindDatasetsByProperty [] PropertyManagedBy ManagedByValue,
     Call_QuerySnapshots [(''dataset'', ''='', ''tank/csi/pvc-333'')]])"
proof -
  have ord: "\<forall>ks :: string list. set ((\<lambda>ks. ks) ks) = set ks" by simp
  note main = listAllSnapshots_queries_per_managed_dataset
    [OF ord, of listingService "\<lambda>_. None" "\<lambda>_. []" 0
       "\<lparr>lreq_MaxEntries = 0, lreq_StartingToken = []\<rparr>"]
  have "listAllSnapshots listingService (\<lambda>ks. ks) (\<lambda>_. None) (\<lambda>_. []) 0
     \<lparr>lreq_MaxEntries = 0, lreq_StartingToken = []\<rparr> =
   (Inr \<lparr>Entries = [\<lparr>SnapshotId = ''nfs:pvc-333@snap1'', SourceVolumeId = ''pvc-333'',
                      CreationTime = 0, ReadyToUse = True, SizeBytes = 0\<rparr>],
         NextToken = []\<rparr>,
    [Call_FindDatasetsByProperty [] PropertyManagedBy ManagedByValue,
     Call_QuerySnapshots [(''dataset'', ''='', ''tank/csi/pvc-333'')]])"
    by (simp add: listAllSnapshots_def listingService_def offlineService_def Let_def
        PropertyManagedBy_def PropertyDetachedSnapshot_def PropertyCSIVolumeName_def
        PropertyProtocol_def PropertyCapacityBytes_def VolumeContextValueTrue_def
        ManagedByValue_def encodeSnapshotID_def shortSnapshotName_def strings_LastIndex_def)
  from conjI [OF main this] show ?thesis by (rule conjunct2)
qed

end
